theory Spec2Isabelle
  imports Complex_Main
begin

section \<open>Numbers and vectors\<close>

text \<open>
  A JavaScript \<open>number\<close> is modelled as a \<open>real\<close>: sums, products, quotients and square
  roots are the exact ones. JavaScript computes in IEEE binary64, which rounds the result of
  every operation, overflows to \<open>Infinity\<close> and underflows to \<open>0\<close>; where that matters the
  value of the code is not the value here: \<open>cosineSimilarity([1, 5], [1, 5])\<close> is
  \<open>1.0000000000000002\<close> in JavaScript and \<open>1\<close> here, and on \<open>[1e200, 0]\<close> it is \<open>NaN\<close> in
  JavaScript and \<open>1\<close> here. The theorems on the reals are about which indices, clusters,
  candidates and labels the code returns; a number in them is the exact value, which the code
  rounds. The similarity functions and the silhouette scorer are modelled a second time in
  binary64 arithmetic, further below.
  The value \<open>Number.POSITIVE_INFINITY\<close>, which the engines use as the start of a running
  minimum and as the average distance to an empty cluster, is the extra
  constructor \<open>PInf\<close> of \<open>xnum\<close>. \<open>NaN\<close> is not a real number: where a function of
  \<open>text-analysis.ts\<close> reads past the end of its second argument (\<open>undefined\<close> in
  JavaScript) its result is \<open>NaN\<close>, written \<open>None\<close>.
  A vector is a \<open>real list\<close>; a vector set is a list of vectors, a document being its index.
\<close>

datatype xnum = Fin real | PInf

fun xless :: "real \<Rightarrow> xnum \<Rightarrow> bool" where
  "xless d (Fin m) = (d < m)"
| "xless d PInf = True"

fun xmin :: "xnum \<Rightarrow> real \<Rightarrow> xnum" where
  "xmin (Fin m) d = Fin (min m d)"
| "xmin PInf d = Fin d"

fun xmin2 :: "xnum \<Rightarrow> xnum \<Rightarrow> xnum" where
  "xmin2 m (Fin d) = xmin m d"
| "xmin2 m PInf = m"

subsection \<open>\<open>cosineSimilarity\<close> and \<open>cosineSimilarityDistance\<close> of \<open>route.ts\<close>\<close>

text \<open>The loop \<open>for (i = 0; i < n; i++)\<close> with its three running sums.\<close>

definition cos_sums :: "nat \<Rightarrow> real list \<Rightarrow> real list \<Rightarrow> real \<times> real \<times> real" where
  "cos_sums n a b =
     fold (\<lambda>i (dotProduct, normA, normB).
             (dotProduct + a ! i * b ! i, normA + a ! i * a ! i, normB + b ! i * b ! i))
          [0..<n] (0, 0, 0)"

definition cosineSimilarity :: "real list \<Rightarrow> real list \<Rightarrow> real" where
  "cosineSimilarity a b =
     (case cos_sums (min (length a) (length b)) a b of
        (dotProduct, normA, normB) \<Rightarrow>
          (let normA = sqrt normA; normB = sqrt normB
           in if normA = 0 \<or> normB = 0 then 0 else dotProduct / (normA * normB)))"

definition cosineSimilarityDistance :: "real list \<Rightarrow> real list \<Rightarrow> real" where
  "cosineSimilarityDistance a b = 1 - cosineSimilarity a b"

subsection \<open>\<open>cosineSimilarity\<close> and \<open>euclideanDistance\<close> of \<open>text-analysis.ts\<close>\<close>

text \<open>
  Both functions iterate over \<open>vecA.length\<close>. When \<open>vecB\<close> is shorter, \<open>vecB[i]\<close> is \<open>undefined\<close>
  and every sum it enters is \<open>NaN\<close>; only \<open>normA\<close> stays a number. \<open>cosine_num\<close> and
  \<open>euclid_num\<close> are the bodies where every read is inside both arrays.
\<close>

definition sumsq :: "real list \<Rightarrow> real" where
  "sumsq vecA = fold (\<lambda>i normA. normA + vecA ! i * vecA ! i) [0..<length vecA] 0"

definition cosine_num :: "real list \<Rightarrow> real list \<Rightarrow> real" where
  "cosine_num vecA vecB =
     (case cos_sums (length vecA) vecA vecB of
        (dotProduct, normA, normB) \<Rightarrow>
          if normA = 0 \<or> normB = 0 then 0 else dotProduct / (sqrt normA * sqrt normB))"

definition cosineSimilarity_ta :: "real list \<Rightarrow> real list \<Rightarrow> real option" where
  "cosineSimilarity_ta vecA vecB =
     (if length vecB < length vecA
      then (if sumsq vecA = 0 then Some 0 else None)
      else Some (cosine_num vecA vecB))"

definition sq_diff_sum :: "nat \<Rightarrow> real list \<Rightarrow> real list \<Rightarrow> real" where
  "sq_diff_sum n vecA vecB =
     fold (\<lambda>i sum. sum + (vecA ! i - vecB ! i) * (vecA ! i - vecB ! i)) [0..<n] 0"

definition euclid_num :: "real list \<Rightarrow> real list \<Rightarrow> real" where
  "euclid_num vecA vecB = sqrt (sq_diff_sum (length vecA) vecA vecB)"


section \<open>Cluster maps and the silhouette scorer\<close>

text \<open>
  A cluster map is the JavaScript object \<open>{ [key: number]: number[] }\<close>. Its keys are
  enumerated in ascending order, so it is an association list in key order:
  \<open>cl_set\<close> is the assignment \<open>clusters[k] = v\<close> and \<open>cl_push\<close> is
  \<open>clusters[k].push(x)\<close> on a key that is present.
\<close>

type_synonym clusters = "(nat \<times> nat list) list"

fun cl_set :: "clusters \<Rightarrow> nat \<Rightarrow> nat list \<Rightarrow> clusters" where
  "cl_set [] k v = [(k, v)]"
| "cl_set ((k', v') # cs) k v =
     (if k = k' then (k, v) # cs
      else if k < k' then (k, v) # (k', v') # cs
      else (k', v') # cl_set cs k v)"

definition cl_push :: "clusters \<Rightarrow> nat \<Rightarrow> nat \<Rightarrow> clusters" where
  "cl_push cs k x = map (\<lambda>(k', v). if k' = k then (k', v @ [x]) else (k', v)) cs"

text \<open>\<open>Object.values(clusters).flat()\<close>\<close>

definition cl_flat :: "clusters \<Rightarrow> nat list" where
  "cl_flat cs = concat (map snd cs)"

subsection \<open>\<open>calculateSilhouetteScore\<close>\<close>

text \<open>
  The scorer of \<open>route.ts\<close> and the scorer of \<open>clustering-algorithms.ts\<close> are the same
  text up to the distance they call, which is the parameter \<open>dfun\<close> here. Each loop of the
  source is one \<open>fold\<close>. The cluster map is read at the indices it holds; the engines only
  store indices of the vector set in it.
\<close>

definition intraClusterDist ::
  "(real list \<Rightarrow> real list \<Rightarrow> real) \<Rightarrow> real list list \<Rightarrow> nat list \<Rightarrow> nat \<Rightarrow> real" where
  "intraClusterDist dfun vectors clusterPoints pointIdx =
     fold (\<lambda>otherPointIdx acc.
             if pointIdx \<noteq> otherPointIdx
             then acc + dfun (vectors ! pointIdx) (vectors ! otherPointIdx) else acc)
          clusterPoints 0"

definition interClusterDist ::
  "(real list \<Rightarrow> real list \<Rightarrow> real) \<Rightarrow> real list list \<Rightarrow> nat list \<Rightarrow> nat \<Rightarrow> real" where
  "interClusterDist dfun vectors otherClusterPoints pointIdx =
     fold (\<lambda>otherPointIdx acc. acc + dfun (vectors ! pointIdx) (vectors ! otherPointIdx))
          otherClusterPoints 0"

definition avgDist ::
  "(real list \<Rightarrow> real list \<Rightarrow> real) \<Rightarrow> real list list \<Rightarrow> nat list \<Rightarrow> nat \<Rightarrow> xnum" where
  "avgDist dfun vectors otherClusterPoints pointIdx =
     (if length otherClusterPoints > 0
      then Fin (interClusterDist dfun vectors otherClusterPoints pointIdx
                  / real (length otherClusterPoints))
      else PInf)"

definition minInterClusterDist ::
  "(real list \<Rightarrow> real list \<Rightarrow> real) \<Rightarrow> real list list \<Rightarrow> clusters \<Rightarrow> nat \<Rightarrow> nat \<Rightarrow> xnum" where
  "minInterClusterDist dfun vectors cs clusterId pointIdx =
     fold (\<lambda>(otherClusterId, otherClusterPoints) m.
             if otherClusterId \<noteq> clusterId
             then xmin2 m (avgDist dfun vectors otherClusterPoints pointIdx) else m)
          cs PInf"

text \<open>
  The three branches on \<open>a\<close> and \<open>b\<close>. With \<open>b = Infinity\<close> the test \<open>a < b\<close> holds and
  \<open>a / b\<close> is \<open>0\<close>. A quotient by \<open>0\<close> is \<open>Infinity\<close> or \<open>-Infinity\<close> in JavaScript and
  \<open>0\<close> in HOL: \<open>b / a\<close> is reached with \<open>a = 0\<close> only when \<open>b < 0\<close>, and \<open>a / b\<close> with
  \<open>b = 0\<close> only when \<open>a < 0\<close>, so only when a distance is negative. No distance of the
  vector sets evaluated below is.
\<close>

fun silhouette :: "real \<Rightarrow> xnum \<Rightarrow> real" where
  "silhouette a (Fin b) =
     (if a = 0 \<and> b = 0 then 0 else if a < b then 1 - a / b else b / a - 1)"
| "silhouette a PInf = 1 - 0"

definition pointSilhouette ::
  "(real list \<Rightarrow> real list \<Rightarrow> real) \<Rightarrow> real list list \<Rightarrow> clusters \<Rightarrow> nat \<Rightarrow> nat list \<Rightarrow> nat \<Rightarrow> real" where
  "pointSilhouette dfun vectors cs clusterId clusterPoints pointIdx =
     (let a = (if length clusterPoints > 1
               then intraClusterDist dfun vectors clusterPoints pointIdx
                      / real (length clusterPoints - 1)
               else 0);
          b = minInterClusterDist dfun vectors cs clusterId pointIdx
      in silhouette a b)"

definition silhouetteTotals ::
  "(real list \<Rightarrow> real list \<Rightarrow> real) \<Rightarrow> real list list \<Rightarrow> clusters \<Rightarrow> real \<times> nat" where
  "silhouetteTotals dfun vectors cs =
     fold (\<lambda>(clusterId, clusterPoints) acc.
             fold (\<lambda>pointIdx (totalSilhouette, totalPoints).
                     (totalSilhouette + pointSilhouette dfun vectors cs clusterId clusterPoints pointIdx,
                      totalPoints + 1))
                  clusterPoints acc)
          cs (0, 0)"

definition silhouetteScoreWith ::
  "(real list \<Rightarrow> real list \<Rightarrow> real) \<Rightarrow> real list list \<Rightarrow> clusters \<Rightarrow> real" where
  "silhouetteScoreWith dfun vectors cs =
     (if length cs \<le> 1 then 0
      else case silhouetteTotals dfun vectors cs of
             (totalSilhouette, totalPoints) \<Rightarrow>
               if totalPoints > 0 then totalSilhouette / real totalPoints else 0)"

text \<open>\<open>route.ts\<close>: the distance is \<open>cosineSimilarityDistance\<close>.\<close>

definition calculateSilhouetteScore :: "real list list \<Rightarrow> clusters \<Rightarrow> real" where
  "calculateSilhouetteScore vectors cs = silhouetteScoreWith cosineSimilarityDistance vectors cs"

text \<open>
  \<open>clustering-algorithms.ts\<close>: the distance is chosen by \<open>distanceMetric\<close>, and is computed
  by the functions of \<open>text-analysis.ts\<close> on two vectors of the vector set.
\<close>

datatype distanceMetric = Euclidean | Cosine

fun distance_ca :: "distanceMetric \<Rightarrow> real list \<Rightarrow> real list \<Rightarrow> real" where
  "distance_ca Euclidean a b = euclid_num a b"
| "distance_ca Cosine a b = 1 - cosine_num a b"

definition calculateSilhouetteScore_ca ::
  "real list list \<Rightarrow> clusters \<Rightarrow> distanceMetric \<Rightarrow> real" where
  "calculateSilhouetteScore_ca vectors cs metric = silhouetteScoreWith (distance_ca metric) vectors cs"

section \<open>The DBSCAN engine\<close>

text \<open>
  \<open>runDBSCAN\<close> of \<open>route.ts\<close> and \<open>dbscanClustering\<close> of \<open>clustering-algorithms.ts\<close> share
  their traversal; the distance is again the parameter \<open>dfun\<close>. The array \<open>visited\<close> of
  booleans is the list of the indices set to \<open>true\<close>; \<open>minPts\<close> is a count.
\<close>

definition getNeighbors ::
  "(real list \<Rightarrow> real list \<Rightarrow> real) \<Rightarrow> real list list \<Rightarrow> real \<Rightarrow> nat \<Rightarrow> nat list" where
  "getNeighbors dfun vectors eps pointIdx =
     filter (\<lambda>i. dfun (vectors ! pointIdx) (vectors ! i) \<le> eps) [0..<length vectors]"

text \<open>\<open>for (const neighbor of currentNeighbors) if (!neighbors.includes(neighbor)) neighbors.push(neighbor)\<close>\<close>

definition addNew :: "nat list \<Rightarrow> nat list \<Rightarrow> nat list" where
  "addNew currentNeighbors neighbors =
     fold (\<lambda>neighbor ns. if neighbor \<notin> set ns then ns @ [neighbor] else ns) currentNeighbors neighbors"

definition visitPoint ::
  "(real list \<Rightarrow> real list \<Rightarrow> real) \<Rightarrow> real list list \<Rightarrow> real \<Rightarrow> nat \<Rightarrow> nat \<Rightarrow> nat list \<Rightarrow> nat list" where
  "visitPoint dfun vectors eps minPts currentPoint neighbors =
     (let currentNeighbors = getNeighbors dfun vectors eps currentPoint
      in if length currentNeighbors \<ge> minPts then addNew currentNeighbors neighbors else neighbors)"

text \<open>\<open>if (!Object.values(clusters).flat().includes(currentPoint)) clusters[clusterIdx].push(currentPoint)\<close>\<close>

definition claimPoint :: "clusters \<Rightarrow> nat \<Rightarrow> nat \<Rightarrow> clusters" where
  "claimPoint cs clusterIdx currentPoint =
     (if currentPoint \<notin> set (cl_flat cs) then cl_push cs clusterIdx currentPoint else cs)"

text \<open>
  The loop \<open>while (j < neighbors.length)\<close> over the growing list \<open>neighbors\<close>. It ends
  because a step either visits a point not visited before or leaves the list as it is.
\<close>

function expandCluster ::
  "(real list \<Rightarrow> real list \<Rightarrow> real) \<Rightarrow> real list list \<Rightarrow> real \<Rightarrow> nat \<Rightarrow> nat
     \<Rightarrow> nat \<Rightarrow> nat list \<Rightarrow> nat list \<Rightarrow> clusters \<Rightarrow> nat list \<times> clusters" where
  "expandCluster dfun vectors eps minPts clusterIdx j neighbors visited cs =
     (if j < length neighbors
      then (let currentPoint = neighbors ! j
            in if currentPoint \<notin> set visited
               then expandCluster dfun vectors eps minPts clusterIdx (j + 1)
                      (visitPoint dfun vectors eps minPts currentPoint neighbors)
                      (currentPoint # visited)
                      (claimPoint cs clusterIdx currentPoint)
               else expandCluster dfun vectors eps minPts clusterIdx (j + 1)
                      neighbors visited (claimPoint cs clusterIdx currentPoint))
      else (visited, cs))"
  by pat_completeness auto

termination expandCluster
proof (relation "measures
    [\<lambda>(dfun, vectors, eps, minPts, clusterIdx, j, neighbors, visited, cs).
        card ((set neighbors \<union> {..<length vectors}) - set visited),
     \<lambda>(dfun, vectors, eps, minPts, clusterIdx, j, neighbors, visited, cs).
        length neighbors - j]", goal_cases)
  case 1
  show ?case by simp
next
  case (2 dfun vectors eps minPts clusterIdx j neighbors visited cs x)
  let ?A = "(set neighbors \<union> {..<length vectors}) - set visited"
  have grow: "set (fold (\<lambda>neighbor ns. if neighbor \<notin> set ns then ns @ [neighbor] else ns) xs ns)
          = set ns \<union> set xs" for xs ns :: "nat list"
    by (induction xs arbitrary: ns) auto
  have same: "set (visitPoint dfun vectors eps minPts x neighbors) \<union> {..<length vectors}
          = set neighbors \<union> {..<length vectors}"
    by (auto simp: visitPoint_def Let_def addNew_def grow getNeighbors_def)
  have fin: "finite ?A" by simp
  have mem: "x \<in> ?A" using 2 by simp
  have less: "card (?A - {x}) < card ?A" using fin mem by (rule card_Diff1_less)
  have "(set (visitPoint dfun vectors eps minPts x neighbors) \<union> {..<length vectors}) - set (x # visited)
          = ?A - {x}" unfolding same by auto
  then have "card ((set (visitPoint dfun vectors eps minPts x neighbors) \<union> {..<length vectors})
                     - set (x # visited)) < card ?A"
    using less by (simp only:)
  then show ?case by simp
next
  case (3 dfun vectors eps minPts clusterIdx j neighbors visited cs x)
  then show ?case by simp
qed

record dbscan_state =
  visited :: "nat list"
  noise :: "nat list"
  st_clusters :: clusters
  clusterIdx :: nat

definition dbscanVisit ::
  "(real list \<Rightarrow> real list \<Rightarrow> real) \<Rightarrow> real list list \<Rightarrow> real \<Rightarrow> nat \<Rightarrow> nat
     \<Rightarrow> dbscan_state \<Rightarrow> dbscan_state" where
  "dbscanVisit dfun vectors eps minPts i st =
     (if i \<in> set (visited st) then st
      else (let neighbors = getNeighbors dfun vectors eps i
            in if length neighbors < minPts
               then st\<lparr>visited := i # visited st, noise := noise st @ [i]\<rparr>
               else (case expandCluster dfun vectors eps minPts (clusterIdx st) 0 neighbors
                            (i # visited st) (cl_set (st_clusters st) (clusterIdx st) [i]) of
                       (visited', cs') \<Rightarrow>
                         st\<lparr>visited := visited', st_clusters := cs',
                            clusterIdx := clusterIdx st + 1\<rparr>)))"

definition dbscanLoop ::
  "(real list \<Rightarrow> real list \<Rightarrow> real) \<Rightarrow> real list list \<Rightarrow> real \<Rightarrow> nat \<Rightarrow> dbscan_state" where
  "dbscanLoop dfun vectors eps minPts =
     fold (dbscanVisit dfun vectors eps minPts) [0..<length vectors]
          \<lparr>visited = [], noise = [], st_clusters = [], clusterIdx = 0\<rparr>"

text \<open>
  Noise handling: up to three noise points become clusters of their own, more become one
  cluster.
\<close>

definition foldNoise :: "dbscan_state \<Rightarrow> clusters" where
  "foldNoise st =
     (if length (noise st) > 0
      then (if length (noise st) \<le> 3
            then fold (\<lambda>i cs. cl_set cs (clusterIdx st + i) [noise st ! i])
                      [0..<length (noise st)] (st_clusters st)
            else cl_set (st_clusters st) (clusterIdx st) (noise st))
      else st_clusters st)"

subsection \<open>Cluster coherence (\<open>route.ts\<close>)\<close>

definition pairSimilarity :: "real list list \<Rightarrow> nat list \<Rightarrow> real \<times> nat" where
  "pairSimilarity vectors clusterPoints =
     fold (\<lambda>i acc.
             fold (\<lambda>j (totalSimilarity, pairCount).
                     (totalSimilarity
                        + cosineSimilarity (vectors ! (clusterPoints ! i)) (vectors ! (clusterPoints ! j)),
                      pairCount + 1))
                  [i + 1..<length clusterPoints] acc)
          [0..<length clusterPoints] (0, 0)"

definition coherence :: "real list list \<Rightarrow> nat list \<Rightarrow> real" where
  "coherence vectors clusterPoints =
     (if length clusterPoints \<le> 1 then 1
      else case pairSimilarity vectors clusterPoints of
             (totalSimilarity, pairCount) \<Rightarrow>
               if pairCount > 0 then totalSimilarity / real pairCount else 0)"

definition clusterCoherenceOf :: "real list list \<Rightarrow> clusters \<Rightarrow> (nat \<times> real) list" where
  "clusterCoherenceOf vectors cs = map (\<lambda>(clusterId, clusterPoints). (clusterId, coherence vectors clusterPoints)) cs"

subsection \<open>\<open>runDBSCAN\<close> (\<open>route.ts\<close>)\<close>

record dbscan_result =
  db_clusters :: clusters
  db_clusterCoherence :: "(nat \<times> real) list"
  db_silhouetteScore :: real

definition runDBSCAN :: "real list list \<Rightarrow> real \<Rightarrow> nat \<Rightarrow> dbscan_result" where
  "runDBSCAN vectors eps minPts =
     (let cs = foldNoise (dbscanLoop cosineSimilarityDistance vectors eps minPts)
      in \<lparr>db_clusters = cs,
          db_clusterCoherence = clusterCoherenceOf vectors cs,
          db_silhouetteScore = calculateSilhouetteScore vectors cs\<rparr>)"

subsection \<open>\<open>dbscanClustering\<close> (\<open>clustering-algorithms.ts\<close>)\<close>

datatype algorithmDetails_ca =
    KMeansEmptyDetails nat nat
  | KMeansDetails nat nat distanceMetric nat
  | DBSCANEmptyDetails real nat
  | DBSCANDetails real nat nat nat

record ClusteringResult =
  cr_clusters :: clusters
  cr_centroids :: "real list list option"
  cr_silhouetteScore :: real
  cr_algorithm :: string
  cr_algorithmDetails :: algorithmDetails_ca

definition dbscanClustering ::
  "real list list \<Rightarrow> real \<Rightarrow> nat \<Rightarrow> distanceMetric \<Rightarrow> ClusteringResult" where
  "dbscanClustering vectors epsilon minPoints metric =
     (if length vectors = 0
      then \<lparr>cr_clusters = [], cr_centroids = None, cr_silhouetteScore = 0,
            cr_algorithm = ''DBSCAN'', cr_algorithmDetails = DBSCANEmptyDetails epsilon minPoints\<rparr>
      else (let st = dbscanLoop (distance_ca metric) vectors epsilon minPoints;
                cs = foldNoise st
            in \<lparr>cr_clusters = cs, cr_centroids = None,
                cr_silhouetteScore = calculateSilhouetteScore_ca vectors cs metric,
                cr_algorithm = ''DBSCAN'',
                cr_algorithmDetails =
                  DBSCANDetails epsilon minPoints (length (noise st)) (length cs)\<rparr>))"

section \<open>The K-Means engine of \<open>route.ts\<close>\<close>

text \<open>
  \<open>Math.random()\<close> is the parameter \<open>rnd\<close>: \<open>rnd n\<close> is the value of the call number \<open>n\<close>
  (from \<open>0\<close>) of one run. A run calls it once for the first centroid and once in every round
  of the seeding loop that draws a threshold; that round starts with \<open>n\<close> centroids.
  An exception of the JavaScript runtime is the left summand of the result.
\<close>

datatype js_error = TypeError

text \<open>
  \<open>Math.min\<close> of the distances to the centroids, started from \<open>Infinity\<close>. The list
  of centroids holds the first centroid when the minimum is taken, so the minimum runs over that
  centroid \<open>c\<close> and the others \<open>cs\<close>.
\<close>

definition minDistTo ::
  "(real list \<Rightarrow> real list \<Rightarrow> real) \<Rightarrow> real list \<Rightarrow> real list \<Rightarrow> real list list \<Rightarrow> real" where
  "minDistTo dfun v c cs = fold (\<lambda>centroid minDist. min minDist (dfun v centroid)) cs (dfun v c)"

text \<open>The roulette wheel: the first unused index whose running sum reaches the threshold.\<close>

fun pickIndex :: "real \<Rightarrow> real \<Rightarrow> (nat \<times> real) list \<Rightarrow> nat option" where
  "pickIndex threshold cumulative [] = None"
| "pickIndex threshold cumulative ((i, d) # rest) =
     (if cumulative + d \<ge> threshold then Some i else pickIndex threshold (cumulative + d) rest)"

function seedCentroids ::
  "real list list \<Rightarrow> nat \<Rightarrow> (nat \<Rightarrow> real) \<Rightarrow> real list list \<Rightarrow> nat list \<Rightarrow> real list list" where
  "seedCentroids vectors k rnd [] used = []"
| "seedCentroids vectors k rnd (c # cs) used =
     (if length (c # cs) < k
      then (let unused = filter (\<lambda>i. i \<notin> set used) [0..<length vectors];
                distances = map (\<lambda>i. minDistTo cosineSimilarityDistance (vectors ! i) c cs
                                        * minDistTo cosineSimilarityDistance (vectors ! i) c cs) unused;
                totalDistance = fold (\<lambda>d total. total + d) distances 0
            in if totalDistance = 0 then c # cs
               else (case pickIndex (rnd (length (c # cs)) * totalDistance) 0 (zip unused distances) of
                       Some nextIndex \<Rightarrow>
                         seedCentroids vectors k rnd ((c # cs) @ [vectors ! nextIndex]) (nextIndex # used)
                     | None \<Rightarrow>
                         (case unused of
                            [] \<Rightarrow> c # cs
                          | nextIndex # _ \<Rightarrow>
                              seedCentroids vectors k rnd ((c # cs) @ [vectors ! nextIndex])
                                (nextIndex # used))))
      else c # cs)"
  by pat_completeness auto
termination
  by (relation "measure (\<lambda>(vectors, k, rnd, centroids, used). k - length centroids)") auto

text \<open>One round of the main loop.\<close>

definition initClusters :: "nat \<Rightarrow> clusters" where
  "initClusters k = fold (\<lambda>i cs. cl_set cs i []) [0..<k] []"

definition nearestCentroid ::
  "(real list \<Rightarrow> real list \<Rightarrow> real) \<Rightarrow> real list \<Rightarrow> real list list \<Rightarrow> nat" where
  "nearestCentroid dfun v centroids =
     snd (fold (\<lambda>j (minDist, bestCentroid).
                  if xless (dfun v (centroids ! j)) minDist
                  then (Fin (dfun v (centroids ! j)), j) else (minDist, bestCentroid))
               [0..<length centroids] (PInf, 0))"

definition assignPoints ::
  "(real list \<Rightarrow> real list \<Rightarrow> real) \<Rightarrow> real list list \<Rightarrow> nat \<Rightarrow> real list list \<Rightarrow> clusters" where
  "assignPoints dfun vectors k centroids =
     fold (\<lambda>i cs. cl_push cs (nearestCentroid dfun (vectors ! i) centroids) i)
          [0..<length vectors] (initClusters k)"

text \<open>
  \<open>clusters[i]\<close> for a key \<open>i < k\<close>, which \<open>initClusters\<close> has set. The mean runs over the
  dimension of the first vector, which is the dimension of every vector of the set.
\<close>

definition cl_get :: "clusters \<Rightarrow> nat \<Rightarrow> nat list" where
  "cl_get cs i = (case map_of cs i of Some v \<Rightarrow> v | None \<Rightarrow> [])"

definition meanVector :: "real list list \<Rightarrow> nat \<Rightarrow> nat list \<Rightarrow> real list" where
  "meanVector vectors dimension points =
     map (\<lambda>d. fold (\<lambda>pointIdx acc. acc + vectors ! pointIdx ! d) points 0 / real (length points))
         [0..<dimension]"

text \<open>
  A cluster \<open>i\<close> with points has \<open>i < centroids.length\<close>, so \<open>centroids[i] = newCentroid\<close>
  replaces an element.
\<close>

definition updateCentroids ::
  "real list list \<Rightarrow> nat \<Rightarrow> clusters \<Rightarrow> real list list \<Rightarrow> real list list" where
  "updateCentroids vectors k cs centroids =
     fold (\<lambda>i centroids.
             if length (cl_get cs i) = 0 then centroids
             else centroids[i := meanVector vectors (length (vectors ! 0)) (cl_get cs i)])
          [0..<k] centroids"

record kmeans_state =
  centroids :: "real list list"
  bestClusters :: clusters
  bestSilhouette :: real
  iterations :: nat

definition kmeansRound :: "real list list \<Rightarrow> nat \<Rightarrow> nat \<Rightarrow> kmeans_state \<Rightarrow> kmeans_state" where
  "kmeansRound vectors k iter st =
     (let cs = assignPoints cosineSimilarityDistance vectors k (centroids st);
          centroids' = updateCentroids vectors k cs (centroids st);
          silhouetteScore = calculateSilhouetteScore vectors cs
      in if silhouetteScore > bestSilhouette st
         then \<lparr>centroids = centroids', bestClusters = cs, bestSilhouette = silhouetteScore,
               iterations = iter + 1\<rparr>
         else st\<lparr>centroids := centroids', iterations := iter + 1\<rparr>)"

record kmeans_result =
  km_clusters :: clusters
  km_clusterCoherence :: "(nat \<times> real) list"
  km_silhouetteScore :: real
  km_iterations :: nat

text \<open>
  \<open>[...vectors[firstIndex]]\<close> throws when \<open>vectors[firstIndex]\<close> is \<open>undefined\<close>, which it is
  for the empty vector set. With \<open>k = 0\<close> the first round pushes to \<open>clusters[0]\<close>, which is
  \<open>undefined\<close>.
\<close>

definition runKMeans ::
  "real list list \<Rightarrow> nat \<Rightarrow> nat \<Rightarrow> (nat \<Rightarrow> real) \<Rightarrow> js_error + kmeans_result" where
  "runKMeans vectors k0 maxIterations rnd =
     (let k = (if length vectors < k0 then length vectors else k0);
          firstIndex = \<lfloor>rnd 0 * real (length vectors)\<rfloor>
      in if \<not> (0 \<le> firstIndex \<and> firstIndex < int (length vectors)) then Inl TypeError
         else if k = 0 \<and> maxIterations > 0 then Inl TypeError
         else (let st = fold (kmeansRound vectors k) [0..<maxIterations]
                          \<lparr>centroids = seedCentroids vectors k rnd [vectors ! nat firstIndex]
                                         [nat firstIndex],
                           bestClusters = [], bestSilhouette = - 1, iterations = 0\<rparr>
               in Inr \<lparr>km_clusters = bestClusters st,
                       km_clusterCoherence = clusterCoherenceOf vectors (bestClusters st),
                       km_silhouetteScore = bestSilhouette st,
                       km_iterations = iterations st\<rparr>))"

section \<open>The algorithm selector \<open>runOptimalClustering\<close>\<close>

definition pairDistances :: "real list list \<Rightarrow> real \<times> nat" where
  "pairDistances embeddings =
     fold (\<lambda>i acc.
             fold (\<lambda>j (avgDistance, pairCount).
                     (avgDistance + cosineSimilarityDistance (embeddings ! i) (embeddings ! j),
                      pairCount + 1))
                  [i + 1..<length embeddings] acc)
          [0..<length embeddings] (0, 0)"

datatype algorithmDetails =
    KMeansParams nat nat nat
  | DBSCANParams real nat nat

record selected_result =
  sel_clusters :: clusters
  sel_clusterCoherence :: "(nat \<times> real) list"
  sel_silhouetteScore :: real
  sel_iterations :: "nat option"
  sel_algorithm :: string
  sel_algorithmDetails :: algorithmDetails

definition runOptimalClustering ::
  "real list list \<Rightarrow> nat \<Rightarrow> (nat \<Rightarrow> real) \<Rightarrow> js_error + selected_result" where
  "runOptimalClustering embeddings documentCount rnd =
     (let k = nat (min (max 2 \<lceil>sqrt (real documentCount / 2)\<rceil>) 10);
          avgDistance = (case pairDistances embeddings of
                           (avgDistance, pairCount) \<Rightarrow>
                             if pairCount > 0 then avgDistance / real pairCount else 0.5);
          epsilon = avgDistance * 1.5;
          minPts = max 2 (min 4 (documentCount div 10))
      in case runKMeans embeddings k 20 rnd of
           Inl e \<Rightarrow> Inl e
         | Inr kmeansResult \<Rightarrow>
             (let dbscanResult = runDBSCAN embeddings epsilon minPts
              in if db_silhouetteScore dbscanResult > km_silhouetteScore kmeansResult
                 then Inr \<lparr>sel_clusters = db_clusters dbscanResult,
                           sel_clusterCoherence = db_clusterCoherence dbscanResult,
                           sel_silhouetteScore = db_silhouetteScore dbscanResult,
                           sel_iterations = None,
                           sel_algorithm = ''DBSCAN'',
                           sel_algorithmDetails =
                             DBSCANParams epsilon minPts (length (db_clusters dbscanResult))\<rparr>
                 else Inr \<lparr>sel_clusters = km_clusters kmeansResult,
                           sel_clusterCoherence = km_clusterCoherence kmeansResult,
                           sel_silhouetteScore = km_silhouetteScore kmeansResult,
                           sel_iterations = Some (km_iterations kmeansResult),
                           sel_algorithm = ''K-means'',
                           sel_algorithmDetails =
                             KMeansParams k (km_iterations kmeansResult)
                               (length (km_clusters kmeansResult))\<rparr>))"

subsection \<open>The parameters of the selector, in the words of the specification\<close>

definition clamp :: "'a::linorder \<Rightarrow> 'a \<Rightarrow> 'a \<Rightarrow> 'a" where
  "clamp x lo hi = max lo (min hi x)"

definition spec_k :: "nat \<Rightarrow> nat" where
  "spec_k N = nat (clamp \<lceil>sqrt (real N / 2)\<rceil> 2 10)"

definition spec_minPts :: "nat \<Rightarrow> nat" where
  "spec_minPts N = clamp (N div 10) 2 4"

text \<open>All point pairs of \<open>n\<close> points, and the mean of their cosine distances.\<close>

definition spec_pairs :: "nat \<Rightarrow> (nat \<times> nat) list" where
  "spec_pairs n = filter (\<lambda>(i, j). i < j) (List.product [0..<n] [0..<n])"

definition spec_mean_distance :: "real list list \<Rightarrow> real" where
  "spec_mean_distance embeddings =
     (\<Sum>(i, j)\<leftarrow>spec_pairs (length embeddings).
         cosineSimilarityDistance (embeddings ! i) (embeddings ! j))
     / real (length (spec_pairs (length embeddings)))"

definition spec_epsilon :: "real list list \<Rightarrow> real" where
  "spec_epsilon embeddings =
     1.5 * (if length (spec_pairs (length embeddings)) < 1 then 0.5
            else spec_mean_distance embeddings)"

text \<open>A candidate result tagged with the name and the parameter record of its algorithm.\<close>

definition tagKMeans :: "nat \<Rightarrow> kmeans_result \<Rightarrow> selected_result" where
  "tagKMeans k kmeansResult =
     \<lparr>sel_clusters = km_clusters kmeansResult,
      sel_clusterCoherence = km_clusterCoherence kmeansResult,
      sel_silhouetteScore = km_silhouetteScore kmeansResult,
      sel_iterations = Some (km_iterations kmeansResult),
      sel_algorithm = ''K-means'',
      sel_algorithmDetails =
        KMeansParams k (km_iterations kmeansResult) (length (km_clusters kmeansResult))\<rparr>"

definition tagDBSCAN :: "real \<Rightarrow> nat \<Rightarrow> dbscan_result \<Rightarrow> selected_result" where
  "tagDBSCAN epsilon minPts dbscanResult =
     \<lparr>sel_clusters = db_clusters dbscanResult,
      sel_clusterCoherence = db_clusterCoherence dbscanResult,
      sel_silhouetteScore = db_silhouetteScore dbscanResult,
      sel_iterations = None,
      sel_algorithm = ''DBSCAN'',
      sel_algorithmDetails = DBSCANParams epsilon minPts (length (db_clusters dbscanResult))\<rparr>"

text \<open>The candidate of the higher silhouette score.\<close>

definition spec_higher :: "selected_result \<Rightarrow> selected_result \<Rightarrow> selected_result" where
  "spec_higher x y = (if sel_silhouetteScore y > sel_silhouetteScore x then y else x)"

text \<open>
  A source of random numbers that returns the same number at every call, as a test that
  controls the random source uses.
\<close>

definition constant_source :: "real \<Rightarrow> nat \<Rightarrow> real" where
  "constant_source r n = r"

section \<open>The K-Means engine of \<open>clustering-algorithms.ts\<close>\<close>

subsection \<open>Seeding\<close>

text \<open>
  When the roulette wheel selects no index, the unused index farthest from the centroids is
  taken (\<open>maxDist\<close> starts at \<open>-1\<close>).
\<close>

definition farthestIndex ::
  "(real list \<Rightarrow> real list \<Rightarrow> real) \<Rightarrow> real list list \<Rightarrow> real list \<Rightarrow> real list list
     \<Rightarrow> nat list \<Rightarrow> nat option" where
  "farthestIndex dfun vectors c cs unused =
     snd (fold (\<lambda>j (maxDist, nextCentroidIndex).
                  if minDistTo dfun (vectors ! j) c cs > maxDist
                  then (minDistTo dfun (vectors ! j) c cs, Some j)
                  else (maxDist, nextCentroidIndex))
               unused (- 1, None))"

text \<open>The round \<open>i\<close> of \<open>for (let i = 1; i < k; i++)\<close>, which makes the call \<open>i\<close> of \<open>Math.random()\<close>.\<close>

fun seedStep ::
  "distanceMetric \<Rightarrow> real list list \<Rightarrow> (nat \<Rightarrow> real) \<Rightarrow> nat
     \<Rightarrow> real list list \<times> nat list \<Rightarrow> real list list \<times> nat list" where
  "seedStep metric vectors rnd i ([], usedIndices) = ([], usedIndices)"
| "seedStep metric vectors rnd i (c # cs, usedIndices) =
     (let unused = filter (\<lambda>j. j \<notin> set usedIndices) [0..<length vectors];
          distances = map (\<lambda>j. minDistTo (distance_ca metric) (vectors ! j) c cs
                                  * minDistTo (distance_ca metric) (vectors ! j) c cs) unused;
          totalDistance = fold (\<lambda>distSquared total. total + distSquared) distances 0;
          threshold = rnd i * totalDistance;
          nextCentroidIndex =
            (case pickIndex threshold 0 (zip unused distances) of
               Some j \<Rightarrow> Some j
             | None \<Rightarrow> farthestIndex (distance_ca metric) vectors c cs unused)
      in case nextCentroidIndex of
           Some j \<Rightarrow> ((c # cs) @ [vectors ! j], j # usedIndices)
         | None \<Rightarrow> (c # cs, usedIndices))"

subsection \<open>One round of the main loop\<close>

definition updateCentroids_ca ::
  "distanceMetric \<Rightarrow> real list list \<Rightarrow> nat \<Rightarrow> nat \<Rightarrow> clusters \<Rightarrow> real list list
     \<Rightarrow> real list list \<times> bool" where
  "updateCentroids_ca metric vectors k dimension cs centroids0 =
     fold (\<lambda>i (centroids, centroidsChanged).
             if length (cl_get cs i) = 0 then (centroids, centroidsChanged)
             else (let newCentroid = meanVector vectors dimension (cl_get cs i);
                       centroidDist = distance_ca metric (centroids ! i) newCentroid
                   in (centroids[i := newCentroid],
                       if centroidDist > 0.001 then True else centroidsChanged)))
          [0..<k] (centroids0, False)"

text \<open>The first cluster of the largest size (\<open>maxSize\<close> starts at \<open>0\<close>).\<close>

definition largestCluster :: "clusters \<Rightarrow> nat \<Rightarrow> nat" where
  "largestCluster cs k =
     snd (fold (\<lambda>j (maxSize, largest).
                  if length (cl_get cs j) > maxSize then (length (cl_get cs j), j)
                  else (maxSize, largest))
               [0..<k] (0, 0))"

text \<open>
  The repair of the empty cluster \<open>i\<close>: \<open>splice(0, pointsToMove)\<close> moves the first half of
  the largest cluster, by index order, and both centroids are recomputed. The array of
  centroids has \<open>k\<close> elements here, so both assignments replace an element.
\<close>

definition repairEmpty ::
  "real list list \<Rightarrow> nat \<Rightarrow> nat \<Rightarrow> nat
     \<Rightarrow> clusters \<times> real list list \<times> bool \<Rightarrow> clusters \<times> real list list \<times> bool" where
  "repairEmpty vectors k dimension i = (\<lambda>(cs, centroids, centroidsChanged).
     if length (cl_get cs i) = 0
     then (let largest = largestCluster cs k
           in if length (cl_get cs largest) \<ge> 2
              then (let pointsToMove = (length (cl_get cs largest) + 1) div 2;
                        movedPoints = take pointsToMove (cl_get cs largest);
                        cs' = cl_set (cl_set cs largest (drop pointsToMove (cl_get cs largest)))
                                i movedPoints;
                        newCentroidI = meanVector vectors dimension (cl_get cs' i);
                        newCentroidLargest = meanVector vectors dimension (cl_get cs' largest)
                    in (cs', centroids[i := newCentroidI, largest := newCentroidLargest], True))
              else (cs, centroids, centroidsChanged))
     else (cs, centroids, centroidsChanged))"

record kmeans_ca_state =
  ca_clusters :: clusters
  ca_centroids :: "real list list"
  ca_iterations :: nat
  ca_converged :: bool

definition kmeansRound_ca ::
  "distanceMetric \<Rightarrow> real list list \<Rightarrow> nat \<Rightarrow> nat \<Rightarrow> kmeans_ca_state \<Rightarrow> kmeans_ca_state" where
  "kmeansRound_ca metric vectors k dimension st =
     (let cs = assignPoints (distance_ca metric) vectors k (ca_centroids st)
      in case updateCentroids_ca metric vectors k dimension cs (ca_centroids st) of
           (centroids1, changed1) \<Rightarrow>
             (case fold (repairEmpty vectors k dimension) [0..<k] (cs, centroids1, changed1) of
                (cs2, centroids2, changed2) \<Rightarrow>
                  \<lparr>ca_clusters = cs2, ca_centroids = centroids2,
                   ca_iterations = ca_iterations st + 1, ca_converged = \<not> changed2\<rparr>))"

text \<open>
  \<open>while (!converged && iterations < maxIterations)\<close>: the first argument counts the rounds
  that \<open>maxIterations\<close> still allows.
\<close>

fun kmeansLoop_ca ::
  "nat \<Rightarrow> distanceMetric \<Rightarrow> real list list \<Rightarrow> nat \<Rightarrow> nat \<Rightarrow> kmeans_ca_state \<Rightarrow> kmeans_ca_state" where
  "kmeansLoop_ca 0 metric vectors k dimension st = st"
| "kmeansLoop_ca (Suc remaining) metric vectors k dimension st =
     (if ca_converged st then st
      else kmeansLoop_ca remaining metric vectors k dimension
             (kmeansRound_ca metric vectors k dimension st))"

subsection \<open>\<open>kMeansClustering\<close>\<close>

definition kMeansClustering ::
  "real list list \<Rightarrow> nat \<Rightarrow> nat \<Rightarrow> distanceMetric \<Rightarrow> (nat \<Rightarrow> real)
     \<Rightarrow> js_error + ClusteringResult" where
  "kMeansClustering vectors k0 maxIterations metric rnd =
     (if length vectors = 0
      then Inr \<lparr>cr_clusters = [], cr_centroids = Some [], cr_silhouetteScore = 0,
                cr_algorithm = ''K-means'', cr_algorithmDetails = KMeansEmptyDetails k0 0\<rparr>
      else (let k = (if length vectors < k0 then length vectors else k0);
                dimension = length (vectors ! 0);
                firstIndex = \<lfloor>rnd 0 * real (length vectors)\<rfloor>
            in if \<not> (0 \<le> firstIndex \<and> firstIndex < int (length vectors)) then Inl TypeError
               else if k = 0 \<and> maxIterations > 0 then Inl TypeError
               else (let seeded = fold (seedStep metric vectors rnd) [1..<k]
                                    ([vectors ! nat firstIndex], [nat firstIndex]);
                         st = kmeansLoop_ca maxIterations metric vectors k dimension
                                \<lparr>ca_clusters = [], ca_centroids = fst seeded,
                                 ca_iterations = 0, ca_converged = False\<rparr>;
                         silhouetteScore = calculateSilhouetteScore_ca vectors (ca_clusters st) metric;
                         cs = filter (\<lambda>(key, points). length points \<noteq> 0) (ca_clusters st)
                     in Inr \<lparr>cr_clusters = cs, cr_centroids = Some (ca_centroids st),
                             cr_silhouetteScore = silhouetteScore,
                             cr_algorithm = ''K-means'',
                             cr_algorithmDetails =
                               KMeansDetails k (ca_iterations st) metric (length cs)\<rparr>)))"

section \<open>The vectorizer \<open>generateSemanticEmbeddings\<close>\<close>

text \<open>
  A document is a \<open>string\<close>. The built-in functions of JavaScript strings and regular
  expressions that the code calls are not code of this repository; they are the fields of the
  parameter \<open>js\<close>. A regular expression of the source is a value of \<open>regex\<close>:
  \<^item> \<open>AnyOf cs\<close> is the character class of the characters \<open>cs\<close>, as in \<open>/[.!?]/g\<close>,
  \<^item> \<open>NewlineChar\<close>, \<open>DigitRun\<close>, \<open>Capitalized\<close> and \<open>WhitespaceRun\<close> are the patterns
    for a line feed, \<open>d+\<close> on digits, \<open>[A-Z][a-z]+\<close> and \<open>s+\<close> on white space,
  \<^item> \<open>EndsWith ss\<close> is the alternation of the suffixes \<open>ss\<close>, each anchored at the end,
  \<^item> \<open>Words as\<close> is the alternation \<open>as\<close> between two word boundaries with the flags \<open>gi\<close>;
    \<open>NodeJs\<close> is the alternative \<open>node\<close>, an optional dot, \<open>js\<close>.
  \<open>js_match js r s\<close> is the array of the matches of \<open>r\<close> in \<open>s\<close>, empty when \<open>match\<close>
  returns \<open>null\<close>.
\<close>

datatype alternative = Lit string | NodeJs

datatype regex =
    AnyOf string
  | NewlineChar
  | DigitRun
  | Capitalized
  | WhitespaceRun
  | EndsWith "string list"
  | Words "alternative list"

record js_string_api =
  js_toLowerCase :: "string \<Rightarrow> string"
  js_toUpperCase :: "string \<Rightarrow> string"
  js_split :: "regex \<Rightarrow> string \<Rightarrow> string list"
  js_match :: "regex \<Rightarrow> string \<Rightarrow> string list"
  js_test :: "regex \<Rightarrow> string \<Rightarrow> bool"

text \<open>\<open>s.includes(t)\<close>: \<open>t\<close> occurs in \<open>s\<close> as a substring.\<close>

fun str_includes :: "string \<Rightarrow> string \<Rightarrow> bool" where
  "str_includes [] t = (t = [])"
| "str_includes (c # s) t = (take (length t) (c # s) = t \<or> str_includes s t)"

definition topicPatterns :: "(string \<times> regex list) list" where
  "topicPatterns =
     [(''Machine Learning'', [Words [Lit ''machine learning'', Lit ''ml'',
         Lit ''artificial intelligence'', Lit ''ai'', Lit ''neural network'',
         Lit ''deep learning'', Lit ''supervised'', Lit ''unsupervised'',
         Lit ''reinforcement learning'', Lit ''algorithm'', Lit ''model training'',
         Lit ''prediction'', Lit ''classification'', Lit ''regression'']]),
      (''Natural Language Processing'', [Words [Lit ''nlp'', Lit ''natural language processing'',
         Lit ''text analysis'', Lit ''sentiment analysis'', Lit ''language model'',
         Lit ''tokenization'', Lit ''parsing'', Lit ''linguistics'', Lit ''text mining'',
         Lit ''speech recognition'']]),
      (''Web Development'', [Words [Lit ''web development'', Lit ''frontend'', Lit ''backend'',
         Lit ''html'', Lit ''css'', Lit ''javascript'', Lit ''react'', Lit ''angular'',
         Lit ''vue'', NodeJs, Lit ''api'', Lit ''rest'', Lit ''graphql'',
         Lit ''responsive design'']]),
      (''Data Science'', [Words [Lit ''data science'', Lit ''data analysis'', Lit ''statistics'',
         Lit ''visualization'', Lit ''pandas'', Lit ''numpy'', Lit ''python'',
         Lit ''r programming'', Lit ''big data'', Lit ''analytics'', Lit ''insights'']]),
      (''Software Engineering'', [Words [Lit ''software engineering'', Lit ''programming'',
         Lit ''coding'', Lit ''development'', Lit ''software architecture'',
         Lit ''design patterns'', Lit ''testing'', Lit ''debugging'', Lit ''version control'',
         Lit ''git'']]),
      (''Database'', [Words [Lit ''database'', Lit ''sql'', Lit ''nosql'', Lit ''mongodb'',
         Lit ''postgresql'', Lit ''mysql'', Lit ''data storage'', Lit ''query'', Lit ''indexing'',
         Lit ''normalization'', Lit ''crud operations'']]),
      (''Business'', [Words [Lit ''business'', Lit ''strategy'', Lit ''management'',
         Lit ''marketing'', Lit ''sales'', Lit ''revenue'', Lit ''profit'', Lit ''customer'',
         Lit ''market'', Lit ''competition'', Lit ''growth'']]),
      (''Finance'', [Words [Lit ''finance'', Lit ''financial'', Lit ''investment'',
         Lit ''banking'', Lit ''trading'', Lit ''portfolio'', Lit ''risk'', Lit ''return'',
         Lit ''economics'', Lit ''market analysis'']]),
      (''Healthcare'', [Words [Lit ''healthcare'', Lit ''medical'', Lit ''health'',
         Lit ''patient'', Lit ''clinical'', Lit ''diagnosis'', Lit ''treatment'', Lit ''therapy'',
         Lit ''medicine'', Lit ''pharmaceutical'']]),
      (''Education'', [Words [Lit ''education'', Lit ''learning'', Lit ''teaching'',
         Lit ''academic'', Lit ''curriculum'', Lit ''student'', Lit ''instructor'', Lit ''course'',
         Lit ''training'', Lit ''knowledge'']])]"

definition semanticRelationships :: "(string \<times> string list) list" where
  "semanticRelationships =
     [(''algorithm'', [''method'', ''technique'', ''approach'', ''procedure'', ''process'',
         ''strategy'']),
      (''programming'', [''coding'', ''development'', ''software'', ''computer'', ''technology'']),
      (''machine learning'', [''ai'', ''artificial intelligence'', ''neural network'',
         ''deep learning'', ''data science'']),
      (''nlp'', [''natural language processing'', ''text analysis'', ''linguistics'',
         ''language model'']),
      (''database'', [''data'', ''storage'', ''sql'', ''query'', ''information'']),
      (''web'', [''internet'', ''website'', ''online'', ''browser'', ''html'', ''css'',
         ''javascript'']),
      (''business'', [''company'', ''enterprise'', ''organization'', ''corporate'',
         ''commercial'']),
      (''finance'', [''money'', ''financial'', ''economic'', ''investment'', ''banking'']),
      (''research'', [''study'', ''analysis'', ''investigation'', ''experiment'', ''academic'']),
      (''science'', [''scientific'', ''theory'', ''hypothesis'', ''methodology'', ''empirical''])]"

text \<open>\<open>vector[vectorIndex++] = x\<close>\<close>

definition put :: "real \<Rightarrow> real list \<times> nat \<Rightarrow> real list \<times> nat" where
  "put x = (\<lambda>(vector, vectorIndex). (vector[vectorIndex := x], vectorIndex + 1))"

text \<open>
  The ten document statistics, in the order they are stored. \<open>0 / 0 || 0\<close> is \<open>0\<close>: the
  vocabulary ratio of a document without words.
\<close>

definition basicFeatures :: "js_string_api \<Rightarrow> string \<Rightarrow> real list" where
  "basicFeatures js doc =
     (let normalizedDoc = js_toLowerCase js doc;
          words = filter (\<lambda>word. length word > 2) (js_split js WhitespaceRun normalizedDoc)
      in [ln (real (length doc + 1)) / 10,
          real (length words) / 100,
          real (length (js_match js (AnyOf ''.!?'') doc)) / 10,
          real (length (js_match js NewlineChar doc)) / 5,
          real (length (js_match js DigitRun doc)) / 10,
          real (length (js_match js Capitalized doc)) / 20,
          real (length (filter (\<lambda>w. length w > 8) words)) / 10,
          real (length (js_match js (AnyOf ''(),;:'') doc)) / 20,
          (if length words = 0 then 0 else real (length (remdups words)) / real (length words)),
          real (length (filter (\<lambda>w. js_test js (EndsWith [''ing'', ''tion'', ''ment'']) w) words)) / 10])"

definition topicFeature :: "js_string_api \<Rightarrow> string \<Rightarrow> regex list \<Rightarrow> real" where
  "topicFeature js doc patterns =
     min 1 (real (fold (\<lambda>pattern score. score + length (js_match js pattern doc)) patterns 0) / 5)"

definition semanticFeature :: "string \<Rightarrow> string \<Rightarrow> string list \<Rightarrow> real" where
  "semanticFeature normalizedDoc concept relatedTerms =
     min 1 (real (fold (\<lambda>term score. if str_includes normalizedDoc term then score + 1 else score)
                       relatedTerms
                       (if str_includes normalizedDoc concept then 2 else 0 :: nat)) / 5)"

text \<open>
  The iterations over the two catalogues stop (\<open>break\<close>) at the index \<open>30\<close> and \<open>50\<close>; a round
  after the \<open>break\<close> would find the same index and is the identity here.
\<close>

definition fillVector :: "js_string_api \<Rightarrow> string \<Rightarrow> real list" where
  "fillVector js doc =
     (let start = (replicate 50 0, 0);
          basic = fold put (basicFeatures js doc) start;
          topics = fold (\<lambda>(topic, patterns) (vector, vectorIndex).
                           if vectorIndex \<ge> 30 then (vector, vectorIndex)
                           else put (topicFeature js doc patterns) (vector, vectorIndex))
                        topicPatterns basic;
          semantic = fold (\<lambda>(concept, relatedTerms) (vector, vectorIndex).
                             if vectorIndex \<ge> 50 then (vector, vectorIndex)
                             else put (semanticFeature (js_toLowerCase js doc) concept relatedTerms)
                                    (vector, vectorIndex))
                          semanticRelationships topics
      in fst semantic)"

definition normalizeVector :: "real list \<Rightarrow> real list" where
  "normalizeVector vector0 =
     (let magnitude = sqrt (fold (\<lambda>val sum. sum + val * val) vector0 0)
      in if magnitude > 0
         then fold (\<lambda>i vector. vector[i := vector ! i / magnitude]) [0..<length vector0] vector0
         else vector0)"

definition generateSemanticEmbeddings :: "js_string_api \<Rightarrow> string list \<Rightarrow> real list list" where
  "generateSemanticEmbeddings js documents =
     fold (\<lambda>doc embeddings. embeddings @ [normalizeVector (fillVector js doc)]) documents []"

text \<open>The Euclidean norm, in the words of the specification.\<close>

definition l2norm :: "real list \<Rightarrow> real" where
  "l2norm v = sqrt (\<Sum>x\<leftarrow>v. x\<^sup>2)"

section \<open>The labeler and the unique labels of a response\<close>

text \<open>The catalogue of \<open>generateClusterLabel\<close>: category, keywords, label.\<close>

definition categories :: "(string \<times> string list \<times> string) list" where
  "categories =
     [(''Sports'', [''sports'', ''game'', ''team'', ''player'', ''match'', ''win'', ''coach'',
         ''league'', ''championship'', ''score'', ''football'', ''basketball'', ''baseball'',
         ''soccer'', ''tennis'', ''golf'', ''hockey'', ''athletic'', ''tournament''], ''Sports''),
      (''Machine Learning'', [''machine learning'', ''algorithm'', ''model'', ''training'',
         ''neural'', ''network'', ''deep learning'', ''classification'', ''regression'',
         ''prediction'', ''ai'', ''artificial intelligence'', ''learning''],
         ''Machine Learning & AI''),
      (''Natural Language Processing'', [''nlp'', ''natural language'', ''text'', ''language'',
         ''embedding'', ''sentiment'', ''tokenization'', ''parsing'', ''word'', ''corpus''],
         ''Natural Language Processing''),
      (''Web Development'', [''web'', ''html'', ''css'', ''javascript'', ''react'', ''frontend'',
         ''backend'', ''api'', ''server'', ''client'', ''browser'', ''http'', ''node''],
         ''Web Development''),
      (''Data Science'', [''data'', ''analysis'', ''statistics'', ''visualization'', ''dataset'',
         ''processing'', ''pandas'', ''numpy'', ''matplotlib'', ''analytics''],
         ''Data Science & Analytics''),
      (''Computer Vision'', [''image'', ''vision'', ''computer vision'', ''detection'',
         ''recognition'', ''cnn'', ''visual'', ''pixel'', ''convolutional''], ''Computer Vision''),
      (''Cloud & DevOps'', [''cloud'', ''docker'', ''kubernetes'', ''deployment'', ''aws'',
         ''azure'', ''infrastructure'', ''devops'', ''container''], ''Cloud & DevOps''),
      (''Database'', [''database'', ''sql'', ''nosql'', ''mongodb'', ''postgresql'', ''query'',
         ''table'', ''index'', ''schema''], ''Database & Storage''),
      (''Security'', [''security'', ''encryption'', ''authentication'', ''authorization'',
         ''vulnerability'', ''cryptography'', ''password'', ''firewall''],
         ''Security & Encryption''),
      (''Finance'', [''finance'', ''money'', ''bank'', ''investment'', ''stock'', ''trading'',
         ''market'', ''price'', ''financial''], ''Finance & Trading''),
      (''Healthcare'', [''health'', ''medical'', ''disease'', ''treatment'', ''hospital'',
         ''doctor'', ''patient'', ''medicine'', ''therapy'', ''clinical''],
         ''Healthcare & Medicine''),
      (''Education'', [''education'', ''learning'', ''student'', ''teacher'', ''school'',
         ''university'', ''course'', ''lesson'', ''academic''], ''Education & Learning'')]"

text \<open>\<open>xs.join(sep)\<close>\<close>

fun join :: "string \<Rightarrow> string list \<Rightarrow> string" where
  "join sep [] = []"
| "join sep [x] = x"
| "join sep (x # y # ys) = x @ sep @ join sep (y # ys)"

text \<open>
  The term frequencies \<open>allTerms\<close> are a map from terms to counts; \<open>allTerms[keyword] || 0\<close>
  is \<open>0\<close> for a term that is not counted.
\<close>

definition categoryScore ::
  "js_string_api \<Rightarrow> string \<Rightarrow> string list \<Rightarrow> (string \<rightharpoonup> nat) \<Rightarrow> string list \<Rightarrow> nat" where
  "categoryScore js combinedText topTerms allTerms keywords =
     (let score1 = fold (\<lambda>keyword score.
                           if str_includes combinedText (js_toLowerCase js keyword)
                           then (let frequency = (case allTerms keyword of Some n \<Rightarrow> n | None \<Rightarrow> 0)
                                 in score + (if frequency > 0 then frequency * 3 else 2))
                           else score)
                        keywords 0
      in fold (\<lambda>term score.
                 (let termLower = js_toLowerCase js term
                  in if list_ex (\<lambda>k. str_includes k termLower \<or> str_includes termLower k) keywords
                     then score + 5 else score))
              topTerms score1)"

text \<open>\<open>t.charAt(0).toUpperCase() + t.slice(1)\<close>\<close>

definition capitalize :: "js_string_api \<Rightarrow> string \<Rightarrow> string" where
  "capitalize js t = js_toUpperCase js (take 1 t) @ drop 1 t"

text \<open>
  \<open>Object.entries(categoryScores).sort((a, b) => b[1] - a[1])[0]\<close>: the sort is stable, as
  \<open>sort_key\<close> is, so the first category of the highest score is taken.
\<close>

definition generateClusterLabel ::
  "js_string_api \<Rightarrow> string list \<Rightarrow> string list \<Rightarrow> (string \<rightharpoonup> nat) \<Rightarrow> string" where
  "generateClusterLabel js clusterTexts topTerms allTerms =
     (let combinedText = js_toLowerCase js (join '' '' clusterTexts);
          categoryScores =
            fold (\<lambda>(category, keywords, label) scores.
                    (let score = categoryScore js combinedText topTerms allTerms keywords
                     in if score > 0 then scores @ [(category, score)] else scores))
                 categories [];
          fallback =
            (let mainTerms = filter (\<lambda>t. length t > 2) (map (capitalize js) (take 3 topTerms))
             in if length topTerms > 0 \<and> length mainTerms > 0
                then join '', '' mainTerms @ '' Documents''
                else ''Documents'')
      in case sort_key (\<lambda>(category, score). - int score) categoryScores of
           (category, score) # _ \<Rightarrow>
             (if score > 0
              then (case map_of categories category of
                      Some (keywords, label) \<Rightarrow> label
                    | None \<Rightarrow> fallback)
              else fallback)
         | [] \<Rightarrow> fallback)"

subsection \<open>The summaries of \<open>POST\<close> and their labels\<close>

record ClusterSummary =
  sm_name :: string
  sm_label :: string
  sm_size :: nat
  sm_coherence :: real
  sm_topTerms :: "string list"
  sm_description :: string

text \<open>
  What \<open>POST\<close> has for one cluster when it builds the summary: the key, the indices, the
  texts, the top terms and the term frequencies of the cluster, and its coherence.
\<close>

record cluster_terms =
  ct_clusterId :: nat
  ct_docIndices :: "nat list"
  ct_clusterTexts :: "string list"
  ct_topTerms :: "string list"
  ct_allTerms :: "string \<rightharpoonup> nat"
  ct_coherence :: real

text \<open>The decimal digits of a number, as a template literal prints it.\<close>

fun showNat :: "nat \<Rightarrow> string" where
  "showNat n =
     (if n < 10 then [''0123456789'' ! n]
      else showNat (n div 10) @ [''0123456789'' ! (n mod 10)])"

declare showNat.simps [simp del]

definition summarize :: "js_string_api \<Rightarrow> cluster_terms \<Rightarrow> nat \<times> ClusterSummary" where
  "summarize js ct =
     (let clusterLabel = generateClusterLabel js (ct_clusterTexts ct) (ct_topTerms ct) (ct_allTerms ct)
      in (ct_clusterId ct,
          \<lparr>sm_name = clusterLabel, sm_label = clusterLabel,
           sm_size = length (ct_docIndices ct),
           sm_coherence = ct_coherence ct,
           sm_topTerms = ct_topTerms ct,
           sm_description =
             showNat (length (ct_docIndices ct)) @ '' document''
               @ (if length (ct_docIndices ct) > 1 then ''s'' else [])
               @ '' related to '' @ js_toLowerCase js clusterLabel\<rparr>))"

text \<open>
  The pass \<open>Ensure all cluster labels are unique\<close>. \<open>labelCounts\<close> is a map from labels to
  counts; a label it has not counted is \<open>undefined\<close>, which is falsy, as the empty
  \<open>summary.label\<close> is in \<open>summary.label || summary.name\<close>. (The labels of the labeler
  are the labels of the catalogue or end in \<open>Documents\<close>; none of them is the name of a
  property that the object \<open>labelCounts\<close> inherits.)
\<close>

definition setSummary ::
  "(nat \<times> ClusterSummary) list \<Rightarrow> nat \<Rightarrow> ClusterSummary \<Rightarrow> (nat \<times> ClusterSummary) list" where
  "setSummary summaries clusterId s =
     map (\<lambda>(k, s'). if k = clusterId then (k, s) else (k, s')) summaries"

definition uniqueStep ::
  "nat \<times> ClusterSummary \<Rightarrow> (string \<rightharpoonup> nat) \<times> (nat \<times> ClusterSummary) list
     \<Rightarrow> (string \<rightharpoonup> nat) \<times> (nat \<times> ClusterSummary) list" where
  "uniqueStep = (\<lambda>(clusterId, summary) (labelCounts, updatedSummaries).
     (let label = (if sm_label summary \<noteq> [] then sm_label summary else sm_name summary)
      in case labelCounts label of
           Some n \<Rightarrow>
             (labelCounts(label \<mapsto> n + 1),
              setSummary updatedSummaries clusterId
                (summary\<lparr>sm_label := label @ '' ('' @ showNat (n + 1) @ '')'',
                         sm_name := sm_name summary @ '' ('' @ showNat (n + 1) @ '')''\<rparr>))
         | None \<Rightarrow> (labelCounts(label \<mapsto> 1), updatedSummaries)))"

definition uniqueLabels :: "(nat \<times> ClusterSummary) list \<Rightarrow> (nat \<times> ClusterSummary) list" where
  "uniqueLabels clusterSummaries = snd (fold uniqueStep clusterSummaries (Map.empty, clusterSummaries))"

definition responseSummaries :: "js_string_api \<Rightarrow> cluster_terms list \<Rightarrow> (nat \<times> ClusterSummary) list" where
  "responseSummaries js cts = uniqueLabels (map (summarize js) cts)"

text \<open>
  The label of the summary at position \<open>i\<close>, in the words of the specification: the base
  label for its first occurrence, the base label with the counter of the occurrence appended
  for every later one.
\<close>

definition spec_label :: "string list \<Rightarrow> nat \<Rightarrow> string" where
  "spec_label bases i =
     (let earlier = length (filter (\<lambda>b. b = bases ! i) (take i bases))
      in if earlier = 0 then bases ! i
         else bases ! i @ '' ('' @ showNat (earlier + 1) @ '')'')"

text \<open>
  The base label of a summary (\<open>summary.label || summary.name\<close>) and the pass as a
  recursion over the summaries, \<open>seen\<close> being the base labels met so far.
\<close>

definition baseLabel :: "ClusterSummary \<Rightarrow> string" where
  "baseLabel s = (if sm_label s \<noteq> [] then sm_label s else sm_name s)"

definition withCounter :: "ClusterSummary \<Rightarrow> nat \<Rightarrow> ClusterSummary" where
  "withCounter s n =
     s\<lparr>sm_label := baseLabel s @ '' ('' @ showNat n @ '')'',
       sm_name := sm_name s @ '' ('' @ showNat n @ '')''\<rparr>"

fun relabel :: "string list \<Rightarrow> (nat \<times> ClusterSummary) list \<Rightarrow> (nat \<times> ClusterSummary) list" where
  "relabel seen [] = []"
| "relabel seen ((k, s) # rest) =
     (k, if count_list seen (baseLabel s) = 0 then s
         else withCounter s (count_list seen (baseLabel s) + 1))
     # relabel (seen @ [baseLabel s]) rest"

text \<open>A string API whose functions change nothing and match nothing.\<close>

definition plain_api :: js_string_api where
  "plain_api =
     \<lparr>js_toLowerCase = (\<lambda>s. s), js_toUpperCase = (\<lambda>s. s),
      js_split = (\<lambda>r s. []), js_match = (\<lambda>r s. []), js_test = (\<lambda>r s. False)\<rparr>"

text \<open>A cluster of \<open>POST\<close> without texts and terms.\<close>

definition bare_cluster :: "nat \<Rightarrow> cluster_terms" where
  "bare_cluster k =
     \<lparr>ct_clusterId = k, ct_docIndices = [], ct_clusterTexts = [], ct_topTerms = [],
      ct_allTerms = Map.empty, ct_coherence = 1\<rparr>"

text \<open>The map \<open>labelCounts\<close> after the base labels \<open>seen\<close>.\<close>

definition countsOf :: "string list \<Rightarrow> (string \<rightharpoonup> nat)" where
  "countsOf seen = (\<lambda>label. if count_list seen label = 0 then None else Some (count_list seen label))"

text \<open>A base label after \<open>c\<close> earlier occurrences.\<close>

definition counted :: "string \<Rightarrow> nat \<Rightarrow> string" where
  "counted b c = (if c = 0 then b else b @ '' ('' @ showNat (c + 1) @ '')'')"

definition endsWithParen :: "string \<Rightarrow> bool" where
  "endsWithParen b = (b \<noteq> [] \<and> last b = CHR '')'')"

section \<open>Binary64 arithmetic\<close>

text \<open>
  Where the last digit of a number decides, in the similarity functions and in the silhouette
  scorer, the code is modelled a second time, on the numbers that JavaScript has. A \<open>number\<close> is a finite value (\<open>Num 0\<close> being \<open>+0\<close>), \<open>-0\<close>,
  \<open>Infinity\<close>, \<open>-Infinity\<close> or \<open>NaN\<close>. The result of an operation is the exact result rounded
  to binary64, to the nearest value and on a tie to the one of even significand:
  a value \<open>x\<close> with \<open>2^k \<le> |x| < 2^(k+1)\<close> is rounded to a multiple of \<open>2^(k-52)\<close>, and to a
  multiple of \<open>2^-1074\<close> below \<open>2^-1022\<close>; a rounded value of \<open>2^1024\<close> or more is an infinity.
\<close>

datatype number = Num real | NegZero | Infinity | NegInfinity | NaN

definition roundTiesToEven :: "real \<Rightarrow> int" where
  "roundTiesToEven r =
     (let f = \<lfloor>r\<rfloor>
      in if r - of_int f < 1 / 2 then f
         else if 1 / 2 < r - of_int f then f + 1
         else if even f then f else f + 1)"

definition quantum :: "real \<Rightarrow> int" where
  "quantum x = max (\<lfloor>log 2 \<bar>x\<bar>\<rfloor> - 52) (- 1074)"

definition binary64 :: "real \<Rightarrow> number" where
  "binary64 x =
     (let q = 2 powi quantum x;
          y = of_int (roundTiesToEven (x / q)) * q
      in if 2 ^ 1024 \<le> \<bar>y\<bar> then (if 0 < x then Infinity else NegInfinity)
         else if y = 0 then (if x < 0 then NegZero else Num 0)
         else Num y)"

fun isZero :: "number \<Rightarrow> bool" where
  "isZero (Num r) = (r = 0)"
| "isZero NegZero = True"
| "isZero Infinity = False"
| "isZero NegInfinity = False"
| "isZero NaN = False"

fun isInfinite :: "number \<Rightarrow> bool" where
  "isInfinite (Num r) = False"
| "isInfinite NegZero = False"
| "isInfinite Infinity = True"
| "isInfinite NegInfinity = True"
| "isInfinite NaN = False"

fun signBit :: "number \<Rightarrow> bool" where
  "signBit (Num r) = (r < 0)"
| "signBit NegZero = True"
| "signBit Infinity = False"
| "signBit NegInfinity = True"
| "signBit NaN = False"

fun realOf :: "number \<Rightarrow> real" where
  "realOf (Num r) = r"
| "realOf NegZero = 0"
| "realOf Infinity = 0"
| "realOf NegInfinity = 0"
| "realOf NaN = 0"

definition signedInfinity :: "bool \<Rightarrow> number" where
  "signedInfinity negative = (if negative then NegInfinity else Infinity)"

definition signedZero :: "bool \<Rightarrow> number" where
  "signedZero negative = (if negative then NegZero else Num 0)"

text \<open>
  \<open>x + y\<close>. Two infinities of opposite sign add to \<open>NaN\<close>; two zeros add to \<open>-0\<close> only when
  both are \<open>-0\<close>; an exact sum \<open>0\<close> of two other values is \<open>+0\<close>.
\<close>

definition js_add :: "number \<Rightarrow> number \<Rightarrow> number" where
  "js_add x y =
     (if x = NaN \<or> y = NaN then NaN
      else if isInfinite x \<and> isInfinite y then (if x = y then x else NaN)
      else if isInfinite x then x
      else if isInfinite y then y
      else if isZero x \<and> isZero y then signedZero (x = NegZero \<and> y = NegZero)
      else if realOf x + realOf y = 0 then Num 0
      else binary64 (realOf x + realOf y))"

fun js_neg :: "number \<Rightarrow> number" where
  "js_neg (Num r) = (if r = 0 then NegZero else Num (- r))"
| "js_neg NegZero = Num 0"
| "js_neg Infinity = NegInfinity"
| "js_neg NegInfinity = Infinity"
| "js_neg NaN = NaN"

text \<open>\<open>x - y\<close> is \<open>x + (-y)\<close> in IEEE arithmetic.\<close>

definition js_sub :: "number \<Rightarrow> number \<Rightarrow> number" where
  "js_sub x y = js_add x (js_neg y)"

text \<open>\<open>x * y\<close>. An infinity times a zero is \<open>NaN\<close>; the sign is the product of the signs.\<close>

definition js_mul :: "number \<Rightarrow> number \<Rightarrow> number" where
  "js_mul x y =
     (if x = NaN \<or> y = NaN then NaN
      else if (isInfinite x \<and> isZero y) \<or> (isZero x \<and> isInfinite y) then NaN
      else if isInfinite x \<or> isInfinite y then signedInfinity (signBit x \<noteq> signBit y)
      else if isZero x \<or> isZero y then signedZero (signBit x \<noteq> signBit y)
      else binary64 (realOf x * realOf y))"

text \<open>
  \<open>x / y\<close>. Two infinities and two zeros divide to \<open>NaN\<close>; a quotient by a zero is an
  infinity, a quotient by an infinity a zero; the sign is the product of the signs.
\<close>

definition js_div :: "number \<Rightarrow> number \<Rightarrow> number" where
  "js_div x y =
     (if x = NaN \<or> y = NaN then NaN
      else if (isInfinite x \<and> isInfinite y) \<or> (isZero x \<and> isZero y) then NaN
      else if isInfinite x \<or> isZero y then signedInfinity (signBit x \<noteq> signBit y)
      else if isZero x \<or> isInfinite y then signedZero (signBit x \<noteq> signBit y)
      else binary64 (realOf x / realOf y))"

text \<open>\<open>Math.sqrt(x)\<close>, the rounded square root, as the engines compute it.\<close>

fun js_sqrt :: "number \<Rightarrow> number" where
  "js_sqrt (Num r) = (if r < 0 then NaN else binary64 (sqrt r))"
| "js_sqrt NegZero = NegZero"
| "js_sqrt Infinity = Infinity"
| "js_sqrt NegInfinity = NaN"
| "js_sqrt NaN = NaN"

text \<open>\<open>x === y\<close>: \<open>NaN\<close> equals nothing, and \<open>+0\<close> equals \<open>-0\<close>.\<close>

definition strictEquals :: "number \<Rightarrow> number \<Rightarrow> bool" where
  "strictEquals x y = (x \<noteq> NaN \<and> y \<noteq> NaN \<and> (x = y \<or> (isZero x \<and> isZero y)))"

text \<open>\<open>x < y\<close>: false when an operand is \<open>NaN\<close>.\<close>

definition js_less :: "number \<Rightarrow> number \<Rightarrow> bool" where
  "js_less x y =
     (if x = NaN \<or> y = NaN then False
      else if x = Infinity \<or> y = NegInfinity then False
      else if x = NegInfinity \<or> y = Infinity then True
      else realOf x < realOf y)"

text \<open>\<open>Math.min(x, y)\<close>: \<open>NaN\<close> when an operand is \<open>NaN\<close>, and \<open>-0\<close> is below \<open>+0\<close>.\<close>

definition js_min :: "number \<Rightarrow> number \<Rightarrow> number" where
  "js_min x y =
     (if x = NaN \<or> y = NaN then NaN
      else if js_less y x then y
      else if js_less x y then x
      else if isZero x \<and> isZero y then signedZero (x = NegZero \<or> y = NegZero)
      else x)"

subsection \<open>The similarity functions\<close>

text \<open>A read \<open>v[i]\<close>; past the end it is \<open>undefined\<close>, which arithmetic takes for \<open>NaN\<close>.\<close>

definition nth_js :: "number list \<Rightarrow> nat \<Rightarrow> number" where
  "nth_js v i = (if i < length v then v ! i else NaN)"

definition cos_sums_b64 :: "nat \<Rightarrow> number list \<Rightarrow> number list \<Rightarrow> number \<times> number \<times> number" where
  "cos_sums_b64 n a b =
     fold (\<lambda>i (dotProduct, normA, normB).
             (js_add dotProduct (js_mul (nth_js a i) (nth_js b i)),
              js_add normA (js_mul (nth_js a i) (nth_js a i)),
              js_add normB (js_mul (nth_js b i) (nth_js b i))))
          [0..<n] (Num 0, Num 0, Num 0)"

text \<open>\<open>cosineSimilarity\<close> and \<open>cosineSimilarityDistance\<close> of \<open>route.ts\<close>.\<close>

definition cosineSimilarity_b64 :: "number list \<Rightarrow> number list \<Rightarrow> number" where
  "cosineSimilarity_b64 a b =
     (case cos_sums_b64 (min (length a) (length b)) a b of
        (dotProduct, normA, normB) \<Rightarrow>
          (let normA = js_sqrt normA; normB = js_sqrt normB
           in if strictEquals normA (Num 0) \<or> strictEquals normB (Num 0) then Num 0
              else js_div dotProduct (js_mul normA normB)))"

definition cosineSimilarityDistance_b64 :: "number list \<Rightarrow> number list \<Rightarrow> number" where
  "cosineSimilarityDistance_b64 a b = js_sub (Num 1) (cosineSimilarity_b64 a b)"

text \<open>\<open>cosineSimilarity\<close> and \<open>euclideanDistance\<close> of \<open>text-analysis.ts\<close>.\<close>

definition cosineSimilarity_ta_b64 :: "number list \<Rightarrow> number list \<Rightarrow> number" where
  "cosineSimilarity_ta_b64 vecA vecB =
     (case cos_sums_b64 (length vecA) vecA vecB of
        (dotProduct, normA, normB) \<Rightarrow>
          if strictEquals normA (Num 0) \<or> strictEquals normB (Num 0) then Num 0
          else js_div dotProduct (js_mul (js_sqrt normA) (js_sqrt normB)))"

definition euclideanDistance_b64 :: "number list \<Rightarrow> number list \<Rightarrow> number" where
  "euclideanDistance_b64 vecA vecB =
     js_sqrt (fold (\<lambda>i sum. let diff = js_sub (nth_js vecA i) (nth_js vecB i)
                             in js_add sum (js_mul diff diff))
                   [0..<length vecA] (Num 0))"

subsection \<open>The silhouette scorer\<close>

text \<open>
  \<open>calculateSilhouetteScore\<close> as above, on binary64 numbers; \<open>clusterPoints.length\<close> and
  \<open>totalPoints\<close> are whole numbers.
\<close>

definition intraClusterDist_b64 ::
  "(number list \<Rightarrow> number list \<Rightarrow> number) \<Rightarrow> number list list \<Rightarrow> nat list \<Rightarrow> nat \<Rightarrow> number" where
  "intraClusterDist_b64 dfun vectors clusterPoints pointIdx =
     fold (\<lambda>otherPointIdx acc.
             if pointIdx \<noteq> otherPointIdx
             then js_add acc (dfun (vectors ! pointIdx) (vectors ! otherPointIdx)) else acc)
          clusterPoints (Num 0)"

definition interClusterDist_b64 ::
  "(number list \<Rightarrow> number list \<Rightarrow> number) \<Rightarrow> number list list \<Rightarrow> nat list \<Rightarrow> nat \<Rightarrow> number" where
  "interClusterDist_b64 dfun vectors otherClusterPoints pointIdx =
     fold (\<lambda>otherPointIdx acc. js_add acc (dfun (vectors ! pointIdx) (vectors ! otherPointIdx)))
          otherClusterPoints (Num 0)"

definition avgDist_b64 ::
  "(number list \<Rightarrow> number list \<Rightarrow> number) \<Rightarrow> number list list \<Rightarrow> nat list \<Rightarrow> nat \<Rightarrow> number" where
  "avgDist_b64 dfun vectors otherClusterPoints pointIdx =
     (if length otherClusterPoints > 0
      then js_div (interClusterDist_b64 dfun vectors otherClusterPoints pointIdx)
                  (Num (real (length otherClusterPoints)))
      else Infinity)"

definition minInterClusterDist_b64 ::
  "(number list \<Rightarrow> number list \<Rightarrow> number) \<Rightarrow> number list list \<Rightarrow> clusters \<Rightarrow> nat \<Rightarrow> nat \<Rightarrow> number" where
  "minInterClusterDist_b64 dfun vectors cs clusterId pointIdx =
     fold (\<lambda>(otherClusterId, otherClusterPoints) m.
             if otherClusterId \<noteq> clusterId
             then js_min m (avgDist_b64 dfun vectors otherClusterPoints pointIdx) else m)
          cs Infinity"

definition silhouette_b64 :: "number \<Rightarrow> number \<Rightarrow> number" where
  "silhouette_b64 a b =
     (if strictEquals a (Num 0) \<and> strictEquals b (Num 0) then Num 0
      else if js_less a b then js_sub (Num 1) (js_div a b)
      else js_sub (js_div b a) (Num 1))"

definition pointSilhouette_b64 ::
  "(number list \<Rightarrow> number list \<Rightarrow> number) \<Rightarrow> number list list \<Rightarrow> clusters \<Rightarrow> nat \<Rightarrow> nat list \<Rightarrow> nat \<Rightarrow> number" where
  "pointSilhouette_b64 dfun vectors cs clusterId clusterPoints pointIdx =
     (let a = (if length clusterPoints > 1
               then js_div (intraClusterDist_b64 dfun vectors clusterPoints pointIdx)
                           (Num (real (length clusterPoints - 1)))
               else Num 0);
          b = minInterClusterDist_b64 dfun vectors cs clusterId pointIdx
      in silhouette_b64 a b)"

definition silhouetteTotals_b64 ::
  "(number list \<Rightarrow> number list \<Rightarrow> number) \<Rightarrow> number list list \<Rightarrow> clusters \<Rightarrow> number \<times> nat" where
  "silhouetteTotals_b64 dfun vectors cs =
     fold (\<lambda>(clusterId, clusterPoints) acc.
             fold (\<lambda>pointIdx (totalSilhouette, totalPoints).
                     (js_add totalSilhouette
                        (pointSilhouette_b64 dfun vectors cs clusterId clusterPoints pointIdx),
                      totalPoints + 1))
                  clusterPoints acc)
          cs (Num 0, 0)"

definition silhouetteScoreWith_b64 ::
  "(number list \<Rightarrow> number list \<Rightarrow> number) \<Rightarrow> number list list \<Rightarrow> clusters \<Rightarrow> number" where
  "silhouetteScoreWith_b64 dfun vectors cs =
     (if length cs \<le> 1 then Num 0
      else case silhouetteTotals_b64 dfun vectors cs of
             (totalSilhouette, totalPoints) \<Rightarrow>
               if totalPoints > 0 then js_div totalSilhouette (Num (real totalPoints)) else Num 0)"

definition calculateSilhouetteScore_b64 :: "number list list \<Rightarrow> clusters \<Rightarrow> number" where
  "calculateSilhouetteScore_b64 vectors cs =
     silhouetteScoreWith_b64 cosineSimilarityDistance_b64 vectors cs"

fun distance_ca_b64 :: "distanceMetric \<Rightarrow> number list \<Rightarrow> number list \<Rightarrow> number" where
  "distance_ca_b64 Euclidean a b = euclideanDistance_b64 a b"
| "distance_ca_b64 Cosine a b = js_sub (Num 1) (cosineSimilarity_ta_b64 a b)"

definition calculateSilhouetteScore_ca_b64 ::
  "number list list \<Rightarrow> clusters \<Rightarrow> distanceMetric \<Rightarrow> number" where
  "calculateSilhouetteScore_ca_b64 vectors cs metric =
     silhouetteScoreWith_b64 (distance_ca_b64 metric) vectors cs"

section \<open>Vector sets of the examples\<close>

definition quad :: "real list list" where "quad = [[1, 0], [1, 0], [1, 0], [0, 4]]"

definition quad_best :: clusters where "quad_best = [(0, [0, Suc 0, 2, 3]), (Suc 0, [])]"

definition twins :: "real list list" where "twins = [[1, 0], [1, 0]]"

definition chain :: "real list list" where "chain = [[1, 0], [3, 4], [- 7, 24]]"

section \<open>Proofs: the distance functions\<close>

lemma cos_sums_sum:
  "cos_sums n a b = (\<Sum>i<n. a ! i * b ! i, \<Sum>i<n. a ! i * a ! i, \<Sum>i<n. b ! i * b ! i)"
  by (induction n) (simp_all add: cos_sums_def)


lemma cosineSimilarity_sums:
  "cosineSimilarity a b =
     (let n = min (length a) (length b);
          A = (\<Sum>i<n. a ! i * a ! i); B = (\<Sum>i<n. b ! i * b ! i)
      in if A = 0 \<or> B = 0 then 0 else (\<Sum>i<n. a ! i * b ! i) / (sqrt A * sqrt B))"
  by (simp add: cosineSimilarity_def cos_sums_sum Let_def)

lemma cosine_num_eq: "length a \<le> length b \<Longrightarrow> cosine_num a b = cosineSimilarity a (take (length a) b)"
  by (simp add: cosine_num_def cosineSimilarity_sums cos_sums_sum Let_def min_def)


lemma sqrt_25: "sqrt 25 = 5"
  using real_sqrt_abs[of 5] by simp

lemma sqrt_625: "sqrt 625 = 25"
  using real_sqrt_abs[of 25] by simp





section \<open>Proofs: empty input and the selector\<close>

text \<open>
  C5. On the empty vector list \<open>kMeansClustering\<close> and \<open>dbscanClustering\<close> return a result
  (\<open>Inr\<close>, no exception) with the empty cluster map and the silhouette score \<open>0\<close>.
\<close>

theorem empty_input_results:
  "kMeansClustering [] k maxIterations metric rnd
     = Inr \<lparr>cr_clusters = [], cr_centroids = Some [], cr_silhouetteScore = 0,
            cr_algorithm = ''K-means'', cr_algorithmDetails = KMeansEmptyDetails k 0\<rparr>
   \<and> dbscanClustering [] epsilon minPoints metric
     = \<lparr>cr_clusters = [], cr_centroids = None, cr_silhouetteScore = 0,
        cr_algorithm = ''DBSCAN'', cr_algorithmDetails = DBSCANEmptyDetails epsilon minPoints\<rparr>"
  by (simp add: kMeansClustering_def dbscanClustering_def)

lemma filter_less_upt: "filter (\<lambda>j. i < j) [0..<n] = [Suc i..<n]"
  by (induction n) auto

lemma spec_pairs_concat:
  "spec_pairs n = concat (map (\<lambda>i. map (Pair i) [i + 1..<n]) [0..<n])"
proof -
  have "filter (\<lambda>(i, j). i < j) (List.product xs [0..<n])
          = concat (map (\<lambda>i. map (Pair i) [i + 1..<n]) xs)" for xs
    by (induction xs) (simp_all add: filter_map comp_def filter_less_upt)
  then show ?thesis by (simp add: spec_pairs_def)
qed

lemma pair_inner:
  "fold (\<lambda>j (t, n). (t + g j, Suc n)) js (t0, n0) = (t0 + sum_list (map g js), n0 + length js)"
  for g :: "nat \<Rightarrow> real" and n0 :: nat
  by (induction js arbitrary: t0 n0) simp_all

lemma pair_outer:
  "fold (\<lambda>i acc. fold (\<lambda>j (t, n). (t + g i j, Suc n)) (js i) acc) is (t0, n0)
     = (t0 + (\<Sum>(i, j)\<leftarrow>concat (map (\<lambda>i. map (Pair i) (js i)) is). g i j),
        n0 + length (concat (map (\<lambda>i. map (Pair i) (js i)) is)))"
  for g :: "nat \<Rightarrow> nat \<Rightarrow> real" and n0 :: nat
  by (induction "is" arbitrary: t0 n0) (simp_all add: pair_inner comp_def)

lemma pairDistances_spec:
  "pairDistances embeddings
     = ((\<Sum>(i, j)\<leftarrow>spec_pairs (length embeddings).
            cosineSimilarityDistance (embeddings ! i) (embeddings ! j)),
        length (spec_pairs (length embeddings)))"
  unfolding pairDistances_def spec_pairs_concat
  using pair_outer[of "\<lambda>i j. cosineSimilarityDistance (embeddings ! i) (embeddings ! j)"
                      "\<lambda>i. [i + 1..<length embeddings]" "[0..<length embeddings]" 0 0]
  by simp

lemma selector_epsilon:
  "(case pairDistances embeddings of
      (avgDistance, pairCount) \<Rightarrow> if pairCount > 0 then avgDistance / real pairCount else 0.5) * 1.5
   = spec_epsilon embeddings"
  by (simp add: pairDistances_spec spec_epsilon_def spec_mean_distance_def)

lemma selector_k: "nat (min (max 2 \<lceil>sqrt (real N / 2)\<rceil>) 10) = spec_k N"
proof -
  have "min (max 2 c) 10 = max 2 (min 10 c)" for c :: int by auto
  then show ?thesis by (simp only: spec_k_def clamp_def)
qed

lemma selector_minPts: "max 2 (min 4 (N div 10)) = spec_minPts N"
  by (simp add: spec_minPts_def clamp_def)


lemma runOptimalClustering_spec:
  "runOptimalClustering embeddings N rnd =
     (case runKMeans embeddings (spec_k N) 20 rnd of
        Inl e \<Rightarrow> Inl e
      | Inr kmeansResult \<Rightarrow>
          Inr (spec_higher (tagKMeans (spec_k N) kmeansResult)
                 (tagDBSCAN (spec_epsilon embeddings) (spec_minPts N)
                    (runDBSCAN embeddings (spec_epsilon embeddings) (spec_minPts N)))))"
  unfolding runOptimalClustering_def Let_def selector_k selector_minPts selector_epsilon
  by (simp add: spec_higher_def tagKMeans_def tagDBSCAN_def split: sum.splits)



text \<open>
  C10. When K-Means returns a candidate and the DBSCAN candidate has the same silhouette
  score, the selector returns the K-Means result; it returns the DBSCAN result exactly when
  the DBSCAN score is strictly greater.
\<close>

theorem tie_selects_kmeans:
  assumes "runKMeans embeddings (spec_k N) 20 rnd = Inr kmeansResult"
  shows "(db_silhouetteScore (runDBSCAN embeddings (spec_epsilon embeddings) (spec_minPts N))
            = km_silhouetteScore kmeansResult
          \<longrightarrow> runOptimalClustering embeddings N rnd = Inr (tagKMeans (spec_k N) kmeansResult))
       \<and> (runOptimalClustering embeddings N rnd
            = Inr (tagDBSCAN (spec_epsilon embeddings) (spec_minPts N)
                     (runDBSCAN embeddings (spec_epsilon embeddings) (spec_minPts N)))
          \<longleftrightarrow> db_silhouetteScore (runDBSCAN embeddings (spec_epsilon embeddings) (spec_minPts N))
                > km_silhouetteScore kmeansResult)"
  using assms
  by (auto simp: runOptimalClustering_spec spec_higher_def tagKMeans_def tagDBSCAN_def)

section \<open>Proofs: the K-Means engine of \<open>route.ts\<close> on two equal vectors\<close>

lemma upt_2: "[0..<2] = [0, Suc 0]" by (simp add: upt_rec)

lemma dist_10_10: "cosineSimilarityDistance [1, 0] [1, 0] = 0"
  by (simp add: cosineSimilarityDistance_def cosineSimilarity_sums lessThan_Suc eval_nat_numeral)

lemma twins_nth: "twins ! 0 = [1, 0]" "twins ! Suc 0 = [1, 0]" "length twins = 2"
  by (simp_all add: twins_def)

lemma twins_seed:
  assumes "i < 2"
  shows "seedCentroids twins 2 rnd [twins ! i] [i] = [[1, 0]]"
proof -
  have v: "twins ! i = [1, 0]" using assms by (cases i) (simp_all add: twins_def)
  have m: "minDistTo cosineSimilarityDistance (twins ! j) [1, 0] [] = 0" if "j < 2" for j
    using that by (cases j) (simp_all add: minDistTo_def twins_def dist_10_10)
  have "fold (\<lambda>d total. total + d)
          (map (\<lambda>i. minDistTo cosineSimilarityDistance (twins ! i) [1, 0] []
                        * minDistTo cosineSimilarityDistance (twins ! i) [1, 0] [])
               (filter (\<lambda>j. j \<notin> set [i]) [0..<length twins])) 0 = 0"
    using assms m[of 0] m[of "Suc 0"] by (cases i) (simp_all add: twins_nth upt_2)
  then show ?thesis unfolding v by (simp add: Let_def)
qed

lemma twins_assign:
  "assignPoints cosineSimilarityDistance twins 2 [[1, 0]] = [(0, [0, Suc 0]), (Suc 0, [])]"
  by (simp add: assignPoints_def initClusters_def nearestCentroid_def upt_2 twins_nth cl_push_def dist_10_10)

lemma twins_update:
  "updateCentroids twins 2 [(0, [0, Suc 0]), (Suc 0, [])] [[1, 0]] = [[1, 0]]"
  by (simp add: updateCentroids_def upt_2 cl_get_def meanVector_def twins_nth)

lemma twins_silhouette:
  "calculateSilhouetteScore twins [(0, [0, Suc 0]), (Suc 0, [])] = 1"
  by (simp add: calculateSilhouetteScore_def silhouetteScoreWith_def silhouetteTotals_def
      pointSilhouette_def intraClusterDist_def minInterClusterDist_def avgDist_def
      twins_nth dist_10_10)

lemma twins_round:
  assumes "bestSilhouette st = - 1 \<or> (bestSilhouette st = 1 \<and> bestClusters st = [(0, [0, Suc 0]), (Suc 0, [])])"
      and "centroids st = [[1, 0]]"
  shows "kmeansRound twins 2 iter st
           = \<lparr>centroids = [[1, 0]], bestClusters = [(0, [0, Suc 0]), (Suc 0, [])],
              bestSilhouette = 1, iterations = iter + 1\<rparr>"
  using assms
  by (cases st) (auto simp: kmeansRound_def twins_assign twins_update twins_silhouette Let_def)

lemma twins_rounds:
  assumes "bestSilhouette st = - 1 \<or> (bestSilhouette st = 1 \<and> bestClusters st = [(0, [0, Suc 0]), (Suc 0, [])])"
      and "centroids st = [[1, 0]]"
  shows "fold (kmeansRound twins 2) [a..<a + Suc n] st
           = \<lparr>centroids = [[1, 0]], bestClusters = [(0, [0, Suc 0]), (Suc 0, [])],
              bestSilhouette = 1, iterations = a + Suc n\<rparr>"
proof (induction n)
  case 0
  show ?case using twins_round[OF assms, of a] by simp
next
  case (Suc n)
  have "[a..<a + Suc (Suc n)] = [a..<a + Suc n] @ [a + Suc n]" by simp
  then show ?case using Suc twins_round[of _ "a + Suc n"] by (simp del: upt_Suc)
qed

lemma twins_coherence:
  "clusterCoherenceOf twins [(0, [0, Suc 0]), (Suc 0, [])] = [(0, 1), (Suc 0, 1)]"
  using dist_10_10
  by (simp add: clusterCoherenceOf_def coherence_def pairSimilarity_def upt_2 twins_nth
      cosineSimilarityDistance_def)

text \<open>
  C7 fails on \<open>runKMeans\<close> of \<open>route.ts\<close>: for two equal vectors and \<open>k = 2\<close> the seeding
  stops with one centroid, every round assigns both points to the cluster \<open>0\<close>, the score of
  that round is \<open>1\<close>, and the returned cluster map keeps the empty cluster \<open>1\<close>, whatever the
  random numbers are.
\<close>

theorem kmeans_returns_empty_cluster:
  assumes "0 \<le> rnd 0" and "rnd 0 < 1"
  shows "runKMeans [[1, 0], [1, 0]] 2 20 rnd
           = Inr \<lparr>km_clusters = [(0, [0, 1]), (1, [])],
                  km_clusterCoherence = [(0, 1), (1, 1)],
                  km_silhouetteScore = 1, km_iterations = 20\<rparr>"
proof -
  let ?i = "\<lfloor>rnd 0 * 2\<rfloor>"
  have lo: "0 \<le> ?i" using assms(1) by simp
  have "rnd 0 * 2 < 2" using assms(2) by simp
  then have hi: "?i < 2" by (simp add: floor_less_iff)
  have i2: "nat ?i < 2" using lo hi by linarith
  have seed: "seedCentroids twins 2 rnd [twins ! nat ?i] [nat ?i] = [[1, 0]]"
    using twins_seed[OF i2] .
  have rounds: "fold (kmeansRound twins 2) [0..<20]
          \<lparr>centroids = [[1, 0]], bestClusters = [], bestSilhouette = - 1, iterations = 0\<rparr>
        = \<lparr>centroids = [[1, 0]], bestClusters = [(0, [0, Suc 0]), (Suc 0, [])],
              bestSilhouette = 1, iterations = 20\<rparr>"
    using twins_rounds[of "\<lparr>centroids = [[1, 0]], bestClusters = [], bestSilhouette = - 1, iterations = 0\<rparr>" 0 19]
    by simp
  have "runKMeans twins 2 20 rnd
           = Inr \<lparr>km_clusters = [(0, [0, 1]), (1, [])],
                  km_clusterCoherence = [(0, 1), (1, 1)],
                  km_silhouetteScore = 1, km_iterations = 20\<rparr>"
    unfolding runKMeans_def Let_def using lo hi
    by (simp add: twins_nth seed rounds twins_coherence del: seedCentroids.simps)
  then show ?thesis by (simp add: twins_def)
qed

theorem kmeans_returns_empty_cluster_witness:
  "runKMeans [[1, 0], [1, 0]] 2 20 (constant_source 0)
           = Inr \<lparr>km_clusters = [(0, [0, 1]), (1, [])],
                  km_clusterCoherence = [(0, 1), (1, 1)],
                  km_silhouetteScore = 1, km_iterations = 20\<rparr>"
  using kmeans_returns_empty_cluster[of "constant_source 0"] by (simp add: constant_source_def)

text \<open>
  The sibling engine \<open>kMeansClustering\<close> of \<open>clustering-algorithms.ts\<close> removes the empty
  clusters before it returns.
\<close>

lemma kMeansClustering_no_empty_cluster:
  assumes "kMeansClustering vectors k maxIterations metric rnd = Inr r"
      and "(key, points) \<in> set (cr_clusters r)"
  shows "points \<noteq> []"
proof (cases "length vectors = 0")
  case True
  then show ?thesis using assms by (auto simp: kMeansClustering_def)
next
  case False
  then show ?thesis
    using assms by (auto simp: kMeansClustering_def Let_def split: if_splits)
qed

section \<open>Proofs: the DBSCAN engines on a chain of three vectors\<close>

lemma distance_ca_Cosine_eq:
  "length a = length b \<Longrightarrow> distance_ca Cosine a b = cosineSimilarityDistance a b"
  by (simp add: cosine_num_eq cosineSimilarityDistance_def)

lemma chain_nth: "chain ! 0 = [1, 0]" "chain ! Suc 0 = [3, 4]" "chain ! 2 = [- 7, 24]" "length chain = 3"
  by (simp_all add: chain_def)

lemma upt_3: "[0..<3] = [0, Suc 0, 2]" by (simp add: upt_rec)

lemma chain_distances:
  "cosineSimilarityDistance [1, 0] [1, 0] = 0"
  "cosineSimilarityDistance [1, 0] [3, 4] = 2/5"
  "cosineSimilarityDistance [1, 0] [- 7, 24] = 32/25"
  "cosineSimilarityDistance [3, 4] [1, 0] = 2/5"
  "cosineSimilarityDistance [3, 4] [3, 4] = 0"
  "cosineSimilarityDistance [3, 4] [- 7, 24] = 2/5"
  "cosineSimilarityDistance [- 7, 24] [1, 0] = 32/25"
  "cosineSimilarityDistance [- 7, 24] [3, 4] = 2/5"
  "cosineSimilarityDistance [- 7, 24] [- 7, 24] = 0"
  by (simp_all add: cosineSimilarityDistance_def cosineSimilarity_sums lessThan_Suc
      eval_nat_numeral sqrt_25 sqrt_625)

lemma chain_neighbors:
  assumes "\<And>a b. length a = 2 \<Longrightarrow> length b = 2 \<Longrightarrow> dfun a b = cosineSimilarityDistance a b"
  shows "getNeighbors dfun chain (1/2) 0 = [0, Suc 0]"
    and "getNeighbors dfun chain (1/2) (Suc 0) = [0, Suc 0, 2]"
    and "getNeighbors dfun chain (1/2) 2 = [Suc 0, 2]"
  by (simp_all add: getNeighbors_def upt_3 chain_nth assms chain_distances)

lemma chain_loop:
  assumes "\<And>a b. length a = 2 \<Longrightarrow> length b = 2 \<Longrightarrow> dfun a b = cosineSimilarityDistance a b"
  shows "dbscanLoop dfun chain (1/2) 3
           = \<lparr>visited = [2, Suc 0, 0], noise = [0], st_clusters = [(0, [Suc 0, 0, 2])],
              clusterIdx = Suc 0\<rparr>"
  by (simp add: dbscanLoop_def upt_3 chain_nth(4) dbscanVisit_def chain_neighbors[OF assms]
      visitPoint_def claimPoint_def cl_flat_def cl_push_def Let_def)

lemma chain_foldNoise:
  "foldNoise \<lparr>visited = [2, Suc 0, 0], noise = [0], st_clusters = [(0, [Suc 0, 0, 2])],
              clusterIdx = Suc 0\<rparr> = [(0, [Suc 0, 0, 2]), (Suc 0, [0])]"
  by (simp add: foldNoise_def)

text \<open>
  C1 fails on both DBSCAN engines: for the three vectors \<open>[1, 0]\<close>, \<open>[3, 4]\<close>, \<open>[-7, 24]\<close>,
  \<open>eps = 0.5\<close> and \<open>minPts = 3\<close>, the point \<open>0\<close> has two neighbours and is marked as noise;
  the point \<open>1\<close> has three and opens the cluster \<open>0\<close>, which claims its neighbour \<open>0\<close>; the
  noise handling then makes \<open>0\<close> a cluster of its own, so the index \<open>0\<close> is returned twice.
\<close>

theorem dbscan_repeats_noise_point:
  "db_clusters (runDBSCAN [[1, 0], [3, 4], [- 7, 24]] (1/2) 3) = [(0, [1, 0, 2]), (1, [0])]
   \<and> cr_clusters (dbscanClustering [[1, 0], [3, 4], [- 7, 24]] (1/2) 3 Cosine)
       = [(0, [1, 0, 2]), (1, [0])]
   \<and> cl_flat [(0, [1, 0, 2]), (1, [0])] = [1, 0, 2, 0]"
proof -
  have 1: "db_clusters (runDBSCAN chain (1/2) 3) = [(0, [1, 0, 2]), (1, [0])]"
    by (simp add: runDBSCAN_def Let_def chain_loop chain_foldNoise)
  have loop: "dbscanLoop (distance_ca Cosine) chain (1/2) 3
           = \<lparr>visited = [2, Suc 0, 0], noise = [0], st_clusters = [(0, [Suc 0, 0, 2])],
              clusterIdx = Suc 0\<rparr>"
    by (rule chain_loop) (rule distance_ca_Cosine_eq, simp)
  have 2: "cr_clusters (dbscanClustering chain (1/2) 3 Cosine) = [(0, [1, 0, 2]), (1, [0])]"
    by (simp add: dbscanClustering_def Let_def chain_nth(4) loop chain_foldNoise)
  show ?thesis using 1 2 by (simp add: chain_def cl_flat_def)
qed

section \<open>Proofs: the selector on four vectors\<close>

lemma quad_nth:
  "quad ! 0 = [1, 0]" "quad ! Suc 0 = [1, 0]" "quad ! 2 = [1, 0]" "quad ! 3 = [0, 4]" "length quad = 4"
  by (simp_all add: quad_def)

lemma upt_4: "[0..<4] = [0, Suc 0, 2, 3]" by (simp add: upt_rec)

lemma sqrt_16: "sqrt 16 = 4" using real_sqrt_abs[of 4] by simp
lemma sqrt_25_16: "sqrt (25 / 16) = 5 / 4" using real_sqrt_abs[of "5/4"] by (simp add: power2_eq_square)

lemma quad_distances:
  "cosineSimilarityDistance [1, 0] [0, 4] = 1"
  "cosineSimilarityDistance [0, 4] [1, 0] = 1"
  "cosineSimilarityDistance [0, 4] [0, 4] = 0"
  "cosineSimilarityDistance [1, 0] [3 / 4, 1] = 2 / 5"
  "cosineSimilarityDistance [0, 4] [3 / 4, 1] = 1 / 5"
  by (simp_all add: cosineSimilarityDistance_def cosineSimilarity_sums lessThan_Suc
      eval_nat_numeral sqrt_16 sqrt_25_16)


lemmas qd = dist_10_10 quad_distances

lemma quad_seed: "seedCentroids quad 2 (constant_source 0) [[1, 0]] [0] = [[1, 0], [1, 0]]"
  by (simp add: Let_def quad_nth upt_4 minDistTo_def qd constant_source_def)

lemma quad_assign1:
  "assignPoints cosineSimilarityDistance quad 2 [[1, 0], [1, 0]] = [(0, [0, Suc 0, 2, 3]), (Suc 0, [])]"
  by (simp add: assignPoints_def initClusters_def nearestCentroid_def upt_2 upt_4 quad_nth cl_push_def qd)

lemma quad_update1:
  "updateCentroids quad 2 [(0, [0, Suc 0, 2, 3]), (Suc 0, [])] [[1, 0], [1, 0]] = [[3 / 4, 1], [1, 0]]"
  by (simp add: updateCentroids_def upt_2 cl_get_def meanVector_def quad_nth)

lemma quad_silhouette1:
  "calculateSilhouetteScore quad [(0, [0, Suc 0, 2, 3]), (Suc 0, [])] = 1"
  by (simp add: calculateSilhouetteScore_def silhouetteScoreWith_def silhouetteTotals_def
      pointSilhouette_def intraClusterDist_def minInterClusterDist_def avgDist_def
      quad_nth qd)

lemma quad_assign2:
  "assignPoints cosineSimilarityDistance quad 2 [[3 / 4, 1], [1, 0]] = [(0, [3]), (Suc 0, [0, Suc 0, 2])]"
  by (simp add: assignPoints_def initClusters_def nearestCentroid_def upt_2 upt_4 quad_nth cl_push_def qd)

lemma quad_update2:
  "updateCentroids quad 2 [(0, [3]), (Suc 0, [0, Suc 0, 2])] cents = cents[0 := [0, 4], Suc 0 := [1, 0]]"
  by (simp add: updateCentroids_def upt_2 cl_get_def meanVector_def quad_nth)

lemma quad_silhouette2:
  "calculateSilhouetteScore quad [(0, [3]), (Suc 0, [0, Suc 0, 2])] = 1"
  by (simp add: calculateSilhouetteScore_def silhouetteScoreWith_def silhouetteTotals_def
      pointSilhouette_def intraClusterDist_def interClusterDist_def minInterClusterDist_def avgDist_def
      quad_nth qd)

lemma quad_assign3:
  "assignPoints cosineSimilarityDistance quad 2 [[0, 4], [1, 0]] = [(0, [3]), (Suc 0, [0, Suc 0, 2])]"
  by (simp add: assignPoints_def initClusters_def nearestCentroid_def upt_2 upt_4 quad_nth cl_push_def qd)

lemma quad_round1:
  "kmeansRound quad 2 0 \<lparr>centroids = [[1, 0], [1, 0]], bestClusters = [], bestSilhouette = - 1, iterations = 0\<rparr>
     = \<lparr>centroids = [[3 / 4, 1], [1, 0]], bestClusters = quad_best, bestSilhouette = 1, iterations = Suc 0\<rparr>"
  by (simp add: kmeansRound_def quad_assign1 quad_update1 quad_silhouette1 Let_def quad_best_def)

lemma quad_round2:
  "kmeansRound quad 2 (Suc 0) \<lparr>centroids = [[3 / 4, 1], [1, 0]], bestClusters = quad_best, bestSilhouette = 1, iterations = m\<rparr>
     = \<lparr>centroids = [[0, 4], [1, 0]], bestClusters = quad_best, bestSilhouette = 1, iterations = 2\<rparr>"
  by (simp add: kmeansRound_def quad_assign2 quad_update2 quad_silhouette2 Let_def)

lemma quad_round3:
  "kmeansRound quad 2 iter \<lparr>centroids = [[0, 4], [1, 0]], bestClusters = quad_best, bestSilhouette = 1, iterations = m\<rparr>
     = \<lparr>centroids = [[0, 4], [1, 0]], bestClusters = quad_best, bestSilhouette = 1, iterations = iter + 1\<rparr>"
  by (simp add: kmeansRound_def quad_assign3 quad_update2 quad_silhouette2 Let_def)

lemma quad_rounds:
  "fold (kmeansRound quad 2) [a..<a + n]
      \<lparr>centroids = [[0, 4], [1, 0]], bestClusters = quad_best, bestSilhouette = 1, iterations = a\<rparr>
     = \<lparr>centroids = [[0, 4], [1, 0]], bestClusters = quad_best, bestSilhouette = 1, iterations = a + n\<rparr>"
proof (induction n)
  case 0
  show ?case by simp
next
  case (Suc n)
  have "[a..<a + Suc n] = [a..<a + n] @ [a + n]" by simp
  then show ?case using Suc quad_round3[of "a + n" "a + n"] by (simp del: upt_Suc)
qed

lemma quad_all_rounds:
  "fold (kmeansRound quad 2) [0..<20]
      \<lparr>centroids = [[1, 0], [1, 0]], bestClusters = [], bestSilhouette = - 1, iterations = 0\<rparr>
     = \<lparr>centroids = [[0, 4], [1, 0]], bestClusters = quad_best, bestSilhouette = 1, iterations = 20\<rparr>"
proof -
  have "[0..<2 + 18] = [0..<2] @ [2..<2 + 18]" by (rule upt_add_eq_append) simp
  then have split: "[0..<20] = [0, Suc 0] @ [2..<2 + 18]" by (simp add: upt_2)
  show ?thesis
    unfolding split fold_append
    using quad_rounds[of 2 18] by (simp add: quad_round1 quad_round2 del: upt_Suc)
qed

lemma quad_coherence: "clusterCoherenceOf quad quad_best = [(0, 1 / 2), (Suc 0, 1)]"
  using qd
  by (simp add: clusterCoherenceOf_def quad_best_def coherence_def pairSimilarity_def upt_4 upt_rec[of _ 4]
      quad_nth cosineSimilarityDistance_def)

lemma quad_kmeans:
  "runKMeans quad 2 20 (constant_source 0)
     = Inr \<lparr>km_clusters = quad_best, km_clusterCoherence = [(0, 1 / 2), (Suc 0, 1)],
            km_silhouetteScore = 1, km_iterations = 20\<rparr>"
  unfolding runKMeans_def Let_def
  by (simp add: constant_source_def[of 0 0] quad_nth quad_seed quad_all_rounds quad_coherence
      del: seedCentroids.simps)


lemma spec_k_4: "spec_k 4 = 2"
proof -
  have "sqrt (real 4 / 2) \<le> 2" by (rule real_le_lsqrt) simp_all
  then have "\<lceil>sqrt (real 4 / 2)\<rceil> \<le> 2" by (simp add: ceiling_le_iff)
  then show ?thesis by (simp add: spec_k_def clamp_def)
qed

lemma spec_minPts_4: "spec_minPts 4 = 2"
  by (simp add: spec_minPts_def clamp_def)

lemma spec_pairs_4:
  "spec_pairs 4 = [(0, Suc 0), (0, 2), (0, 3), (Suc 0, 2), (Suc 0, 3), (2, 3)]"
  by (simp add: spec_pairs_def upt_4)

lemma spec_epsilon_quad: "spec_epsilon quad = 3 / 4"
  by (simp add: spec_epsilon_def spec_mean_distance_def quad_nth spec_pairs_4 qd)

lemma quad_neighbors:
  "getNeighbors cosineSimilarityDistance quad (3 / 4) 0 = [0, Suc 0, 2]"
  "getNeighbors cosineSimilarityDistance quad (3 / 4) (Suc 0) = [0, Suc 0, 2]"
  "getNeighbors cosineSimilarityDistance quad (3 / 4) 2 = [0, Suc 0, 2]"
  "getNeighbors cosineSimilarityDistance quad (3 / 4) 3 = [3]"
  by (simp_all add: getNeighbors_def upt_4 quad_nth qd)

lemma quad_loop:
  "dbscanLoop cosineSimilarityDistance quad (3 / 4) 2
     = \<lparr>visited = [3, 2, Suc 0, 0], noise = [3], st_clusters = [(0, [0, Suc 0, 2])],
        clusterIdx = Suc 0\<rparr>"
  by (simp add: dbscanLoop_def upt_4 quad_nth(5) dbscanVisit_def quad_neighbors
      visitPoint_def addNew_def claimPoint_def cl_flat_def cl_push_def Let_def)

lemma quad_foldNoise:
  "foldNoise \<lparr>visited = [3, 2, Suc 0, 0], noise = [3], st_clusters = [(0, [0, Suc 0, 2])],
        clusterIdx = Suc 0\<rparr> = [(0, [0, Suc 0, 2]), (Suc 0, [3])]"
  by (simp add: foldNoise_def)

lemma quad_silhouette_dbscan:
  "calculateSilhouetteScore quad [(0, [0, Suc 0, 2]), (Suc 0, [3])] = 1"
  by (simp add: calculateSilhouetteScore_def silhouetteScoreWith_def silhouetteTotals_def
      pointSilhouette_def intraClusterDist_def interClusterDist_def minInterClusterDist_def avgDist_def
      quad_nth qd)

lemma quad_dbscan:
  "db_silhouetteScore (runDBSCAN quad (3 / 4) 2) = 1"
  by (simp add: runDBSCAN_def Let_def quad_loop quad_foldNoise quad_silhouette_dbscan)

text \<open>
  The hypotheses of C10 hold for three equal vectors and one orthogonal to them, with a random
  source that returns \<open>0\<close>: both candidates score \<open>1\<close>, and the K-Means result is returned.
\<close>

theorem tie_selects_kmeans_witness:
  "runOptimalClustering [[1, 0], [1, 0], [1, 0], [0, 4]] 4 (constant_source 0)
     = Inr (tagKMeans 2
              \<lparr>km_clusters = [(0, [0, 1, 2, 3]), (1, [])],
               km_clusterCoherence = [(0, 1 / 2), (1, 1)],
               km_silhouetteScore = 1, km_iterations = 20\<rparr>)
   \<and> db_silhouetteScore (runDBSCAN [[1, 0], [1, 0], [1, 0], [0, 4]] (3 / 4) 2) = 1"
proof -
  have km: "runKMeans quad (spec_k 4) 20 (constant_source 0)
     = Inr \<lparr>km_clusters = quad_best, km_clusterCoherence = [(0, 1 / 2), (Suc 0, 1)],
            km_silhouetteScore = 1, km_iterations = 20\<rparr>"
    by (simp only: spec_k_4 quad_kmeans)
  have tie: "db_silhouetteScore (runDBSCAN quad (spec_epsilon quad) (spec_minPts 4))
     = km_silhouetteScore \<lparr>km_clusters = quad_best, km_clusterCoherence = [(0, 1 / 2), (Suc 0, 1)],
            km_silhouetteScore = 1, km_iterations = 20\<rparr>"
    by (simp add: spec_epsilon_quad spec_minPts_4 quad_dbscan)
  show ?thesis
    using tie_selects_kmeans[OF km] tie quad_dbscan
    by (simp add: spec_k_4 quad_best_def quad_def)
qed


section \<open>Proofs: the unique labels\<close>

lemma showNat_nonempty: "showNat n \<noteq> []"
  by (subst showNat.simps) simp

lemma digit_inj:
  fixes a b :: nat
  assumes "a < 10" "b < 10" "''0123456789'' ! a = ''0123456789'' ! b"
  shows "a = b"
proof -
  have "distinct ''0123456789''" by simp
  then show ?thesis using assms by (simp add: nth_eq_iff_index_eq)
qed

lemma showNat_inj: "showNat m = showNat n \<Longrightarrow> m = n"
proof (induction m arbitrary: n rule: showNat.induct)
  case (1 m)
  show ?case
  proof (cases "m < 10")
    case mlt: True
    show ?thesis
    proof (cases "n < 10")
      case True
      have "showNat m = [''0123456789'' ! m]" "showNat n = [''0123456789'' ! n]"
        using mlt True by (subst showNat.simps, simp)+
      then show ?thesis using "1.prems" digit_inj[OF mlt True] by simp
    next
      case False
      have "showNat m = [''0123456789'' ! m]" using mlt by (subst showNat.simps) simp
      moreover have "showNat n = showNat (n div 10) @ [''0123456789'' ! (n mod 10)]"
        using False by (subst showNat.simps) simp
      ultimately show ?thesis using "1.prems" showNat_nonempty[of "n div 10"] by simp
    qed
  next
    case mge: False
    have m: "showNat m = showNat (m div 10) @ [''0123456789'' ! (m mod 10)]"
      using mge by (subst showNat.simps) simp
    show ?thesis
    proof (cases "n < 10")
      case True
      have "showNat n = [''0123456789'' ! n]" using True by (subst showNat.simps) simp
      then show ?thesis using "1.prems" m showNat_nonempty[of "m div 10"] by simp
    next
      case False
      have n: "showNat n = showNat (n div 10) @ [''0123456789'' ! (n mod 10)]"
        using False by (subst showNat.simps) simp
      from "1.prems" m n have eq: "showNat (m div 10) = showNat (n div 10)"
        and c: "''0123456789'' ! (m mod 10) = ''0123456789'' ! (n mod 10)" by simp_all
      have "m div 10 = n div 10" using "1.IH"[OF mge eq] .
      moreover have "m mod 10 = n mod 10" by (rule digit_inj[OF _ _ c]) simp_all
      ultimately show ?thesis by (metis div_mult_mod_eq)
    qed
  qed
qed

lemma showNat_no_paren: "CHR ''('' \<notin> set (showNat n)"
proof (induction n rule: showNat.induct)
  case (1 n)
  have d: "''0123456789'' ! k \<noteq> CHR ''(''" if "k < 10" for k :: nat
  proof -
    have "''0123456789'' ! k \<in> set ''0123456789''" using that by (intro nth_mem) simp
    then show ?thesis by auto
  qed
  show ?case
  proof (cases "n < 10")
    case True
    then show ?thesis using d[of n] by (subst showNat.simps) simp
  next
    case False
    then show ?thesis using "1.IH" d[of "n mod 10"] by (subst showNat.simps) simp
  qed
qed

text \<open>The counter suffix determines the label and the counter.\<close>

lemma counter_suffix_inj:
  assumes "a @ '' ('' @ showNat m @ '')'' = b @ '' ('' @ showNat n @ '')''"
  shows "a = b \<and> m = n"
proof -
  let ?tw = "takeWhile (\<lambda>c. c \<noteq> CHR ''('')"
  have tw: "?tw (rev (x @ '' ('' @ showNat k @ '')'')) = CHR '')'' # rev (showNat k)" for x k
  proof -
    have r: "rev (x @ '' ('' @ showNat k @ '')'') = (CHR '')'' # rev (showNat k)) @ CHR ''('' # CHR '' '' # rev x"
      by simp
    have all: "c \<noteq> CHR ''(''" if "c \<in> set (CHR '')'' # rev (showNat k))" for c
      using that showNat_no_paren[of k] by auto
    show ?thesis
      unfolding r using takeWhile_append2[of "CHR '')'' # rev (showNat k)" "\<lambda>c. c \<noteq> CHR ''(''"] all
      by simp
  qed
  have "?tw (rev (a @ '' ('' @ showNat m @ '')'')) = ?tw (rev (b @ '' ('' @ showNat n @ '')''))"
    by (rule arg_cong[OF assms])
  then have "showNat m = showNat n" unfolding tw by simp
  then have mn: "m = n" by (rule showNat_inj)
  then show ?thesis using assms by simp
qed

lemma countsOf_snoc:
  "(countsOf seen)(l \<mapsto> count_list seen l + 1) = countsOf (seen @ [l])"
  by (rule ext) (simp add: countsOf_def)

lemma setSummary_middle:
  assumes "k \<notin> fst ` set pre" "k \<notin> fst ` set rest"
  shows "setSummary (pre @ (k, s) # rest) k s' = pre @ (k, s') # rest"
proof -
  have "map (\<lambda>(k', s''). if k' = k then (k', s') else (k', s'')) xs = xs" if "k \<notin> fst ` set xs" for xs
    using that by (induction xs) auto
  then show ?thesis using assms by (simp add: setSummary_def)
qed

lemma fold_uniqueStep:
  assumes "distinct (map fst (pre @ zs))"
  shows "fold uniqueStep zs (countsOf seen, pre @ zs)
           = (countsOf (seen @ map (baseLabel \<circ> snd) zs), pre @ relabel seen zs)"
  using assms
proof (induction zs arbitrary: seen pre)
  case Nil
  show ?case by simp
next
  case (Cons z zs)
  obtain k s where z: "z = (k, s)" by (cases z)
  have k1: "k \<notin> fst ` set pre" and k2: "k \<notin> fst ` set zs"
    using Cons.prems by (auto simp: z)
  have d: "distinct (map fst ((pre @ [(k, s')]) @ zs))" for s'
    using Cons.prems by (simp add: z)
  let ?l = "baseLabel s"
  show ?case
  proof (cases "count_list seen ?l = 0")
    case True
    have step: "uniqueStep (k, s) (countsOf seen, pre @ (k, s) # zs)
                  = (countsOf (seen @ [?l]), (pre @ [(k, s)]) @ zs)"
      using True countsOf_snoc[of seen ?l]
      by (simp add: uniqueStep_def baseLabel_def[symmetric] Let_def countsOf_def)
    have "fold uniqueStep (z # zs) (countsOf seen, pre @ z # zs)
            = fold uniqueStep zs (uniqueStep (k, s) (countsOf seen, pre @ (k, s) # zs))"
      by (simp add: z)
    also have "\<dots> = fold uniqueStep zs (countsOf (seen @ [?l]), (pre @ [(k, s)]) @ zs)"
      by (simp only: step)
    also have "\<dots> = (countsOf ((seen @ [?l]) @ map (baseLabel \<circ> snd) zs),
                        (pre @ [(k, s)]) @ relabel (seen @ [?l]) zs)"
      by (rule Cons.IH[OF d])
    also have "\<dots> = (countsOf (seen @ map (baseLabel \<circ> snd) (z # zs)), pre @ relabel seen (z # zs))"
      using True by (simp add: z)
    finally show ?thesis .
  next
    case False
    have step: "uniqueStep (k, s) (countsOf seen, pre @ (k, s) # zs)
                  = (countsOf (seen @ [?l]),
                     (pre @ [(k, withCounter s (count_list seen ?l + 1))]) @ zs)"
      using False countsOf_snoc[of seen ?l] setSummary_middle[OF k1 k2]
      by (simp add: uniqueStep_def baseLabel_def[symmetric] Let_def countsOf_def withCounter_def)
    let ?s' = "withCounter s (count_list seen ?l + 1)"
    have "fold uniqueStep (z # zs) (countsOf seen, pre @ z # zs)
            = fold uniqueStep zs (uniqueStep (k, s) (countsOf seen, pre @ (k, s) # zs))"
      by (simp add: z)
    also have "\<dots> = fold uniqueStep zs (countsOf (seen @ [?l]), (pre @ [(k, ?s')]) @ zs)"
      by (simp only: step)
    also have "\<dots> = (countsOf ((seen @ [?l]) @ map (baseLabel \<circ> snd) zs),
                        (pre @ [(k, ?s')]) @ relabel (seen @ [?l]) zs)"
      by (rule Cons.IH[OF d])
    also have "\<dots> = (countsOf (seen @ map (baseLabel \<circ> snd) (z # zs)), pre @ relabel seen (z # zs))"
      using False by (simp add: z)
    finally show ?thesis .
  qed
qed

lemma uniqueLabels_relabel:
  assumes "distinct (map fst xs)"
  shows "uniqueLabels xs = relabel [] xs"
proof -
  have "countsOf [] = Map.empty" by (rule ext) (simp add: countsOf_def)
  then show ?thesis
    using fold_uniqueStep[of "[]" xs "[]"] assms by (simp add: uniqueLabels_def)
qed

lemma relabel_keys: "map fst (relabel seen xs) = map fst xs"
  by (induction xs arbitrary: seen) auto

lemma relabel_label_head:
  assumes "sm_label s = baseLabel s"
  shows "sm_label (if count_list seen (baseLabel s) = 0 then s
                   else withCounter s (count_list seen (baseLabel s) + 1))
           = counted (baseLabel s) (count_list seen (baseLabel s))"
  using assms by (simp add: counted_def withCounter_def)

lemma relabel_labels:
  assumes "\<forall>(k, s)\<in>set xs. sm_label s = baseLabel s"
  shows "map (sm_label \<circ> snd) (relabel seen xs)
           = map (\<lambda>i. counted (map (baseLabel \<circ> snd) xs ! i)
                          (count_list (seen @ take i (map (baseLabel \<circ> snd) xs))
                                      (map (baseLabel \<circ> snd) xs ! i)))
                 [0..<length xs]"
  using assms
proof (induction xs arbitrary: seen)
  case Nil
  show ?case by simp
next
  case (Cons x xs)
  obtain k s where x: "x = (k, s)" by (cases x)
  have s: "sm_label s = baseLabel s" using Cons.prems by (simp add: x)
  have rest: "\<forall>(k, s)\<in>set xs. sm_label s = baseLabel s" using Cons.prems by simp
  have upt: "[0..<length (x # xs)] = 0 # map Suc [0..<length xs]"
    by (simp add: upt_conv_Cons map_Suc_upt del: upt_Suc)
  show ?case
    unfolding upt
    using Cons.IH[OF rest, of "seen @ [baseLabel s]"] relabel_label_head[OF s, of seen]
    by (simp add: x comp_def)
qed

lemma counted_ends: "0 < c \<Longrightarrow> endsWithParen (counted b c)"
  by (simp add: counted_def endsWithParen_def)

lemma counted_inj:
  assumes "counted b c = counted b' c'" "\<not> endsWithParen b" "\<not> endsWithParen b'"
  shows "b = b' \<and> c = c'"
proof (cases "c = 0")
  case c0: True
  show ?thesis
  proof (cases "c' = 0")
    case True
    then show ?thesis using assms(1) c0 by (simp add: counted_def)
  next
    case False
    then have "endsWithParen (counted b' c')" by (simp add: counted_ends)
    then show ?thesis using assms(1,2) c0 by (simp add: counted_def)
  qed
next
  case cpos: False
  show ?thesis
  proof (cases "c' = 0")
    case True
    have "endsWithParen (counted b c)" using cpos by (simp add: counted_ends)
    then show ?thesis using assms(1,3) True by (simp add: counted_def)
  next
    case False
    then show ?thesis using assms(1) cpos counter_suffix_inj[of b "c + 1" b' "c' + 1"]
      by (simp add: counted_def)
  qed
qed

lemma count_list_take_le: "count_list (take k ys) b \<le> count_list ys b"
proof (induction ys arbitrary: k)
  case Nil
  show ?case by simp
next
  case (Cons y ys)
  show ?case using Cons[of "k - 1"] by (cases k) auto
qed

lemma count_list_take_less:
  assumes "i < j" "j \<le> length bases"
  shows "count_list (take i bases) (bases ! i) < count_list (take j bases) (bases ! i)"
proof -
  have i: "i < length bases" using assms by simp
  have "take (Suc i) bases = take i bases @ [bases ! i]" using i by (rule take_Suc_conv_app_nth)
  then have 1: "count_list (take (Suc i) bases) (bases ! i) = count_list (take i bases) (bases ! i) + 1"
    by simp
  have "take (Suc i) (take j bases) = take (Suc i) bases" using assms(1) by (simp add: min_def)
  then have "count_list (take (Suc i) bases) (bases ! i) \<le> count_list (take j bases) (bases ! i)"
    using count_list_take_le[of "Suc i" "take j bases" "bases ! i"] by simp
  then show ?thesis using 1 by simp
qed

lemma distinct_counted:
  assumes "\<forall>b\<in>set bases. \<not> endsWithParen b"
  shows "distinct (map (\<lambda>i. counted (bases ! i) (count_list (take i bases) (bases ! i)))
                       [0..<length bases])"
proof -
  let ?L = "\<lambda>i. counted (bases ! i) (count_list (take i bases) (bases ! i))"
  have ne: "?L i \<noteq> ?L j" if "i < j" "j < length bases" for i j
  proof
    assume eq: "?L i = ?L j"
    have "bases ! i \<in> set bases" "bases ! j \<in> set bases" using that by simp_all
    then have np: "\<not> endsWithParen (bases ! i)" "\<not> endsWithParen (bases ! j)" using assms by simp_all
    have bc: "bases ! i = bases ! j
              \<and> count_list (take i bases) (bases ! i) = count_list (take j bases) (bases ! j)"
      by (rule counted_inj[OF eq np])
    have b: "bases ! i = bases ! j" using bc by (rule conjunct1)
    have c: "count_list (take i bases) (bases ! i) = count_list (take j bases) (bases ! j)"
      using bc by (rule conjunct2)
    have lt: "count_list (take i bases) (bases ! i) < count_list (take j bases) (bases ! i)"
      using count_list_take_less[of i j bases] that by simp
    have "count_list (take j bases) (bases ! j) = count_list (take j bases) (bases ! i)"
      by (simp only: b)
    with lt c show False by linarith
  qed
  have inj: "inj_on ?L {0..<length bases}"
  proof (rule inj_onI)
    fix i j assume "i \<in> {0..<length bases}" "j \<in> {0..<length bases}" "?L i = ?L j"
    then show "i = j" using ne[of i j] ne[of j i] by (cases i j rule: linorder_cases) auto
  qed
  show ?thesis by (simp add: distinct_map inj)
qed

lemma categories_labels: "\<forall>(category, keywords, label)\<in>set categories. \<not> endsWithParen label"
  by (simp add: categories_def endsWithParen_def)

lemma generateClusterLabel_no_paren:
  "\<not> endsWithParen (generateClusterLabel js clusterTexts topTerms allTerms)"
proof -
  have cat: "\<not> endsWithParen label" if "map_of categories category = Some (kws, label)"
    for category kws label
    using map_of_SomeD[OF that] categories_labels by auto
  have fb: "\<not> endsWithParen (x @ '' Documents'')" "\<not> endsWithParen ''Documents''" for x
    by (simp_all add: endsWithParen_def)
  show ?thesis
    unfolding generateClusterLabel_def Let_def
    using cat fb by (auto split: list.splits option.splits prod.splits)
qed

lemma summarize_fst: "fst (summarize js ct) = ct_clusterId ct"
  by (simp add: summarize_def Let_def)

lemma summarize_base:
  "baseLabel (snd (summarize js ct))
     = generateClusterLabel js (ct_clusterTexts ct) (ct_topTerms ct) (ct_allTerms ct)"
  "sm_label (snd (summarize js ct)) = baseLabel (snd (summarize js ct))"
  by (simp_all add: summarize_def Let_def baseLabel_def)

lemma spec_label_counted:
  "spec_label bases i = counted (bases ! i) (count_list (take i bases) (bases ! i))"
proof -
  have "count_list xs y = length (filter (\<lambda>b. b = y) xs)" for xs and y :: string
    by (induction xs) auto
  then show ?thesis by (simp add: spec_label_def counted_def Let_def)
qed

text \<open>
  C9. For the summaries of a response (one per cluster key), after the pass
  \<open>Ensure all cluster labels are unique\<close> no two summaries carry the same label: the first
  summary of a base label keeps it, every later one gets the counter of its occurrence
  appended (\<open>spec_label\<close>), and the labels are pairwise distinct. The keys stay as they are.
\<close>

theorem labels_are_unique:
  assumes "distinct (map ct_clusterId cts)"
  shows "distinct (map (sm_label \<circ> snd) (responseSummaries js cts))
       \<and> map (sm_label \<circ> snd) (responseSummaries js cts)
           = map (spec_label
                    (map (\<lambda>ct. generateClusterLabel js (ct_clusterTexts ct) (ct_topTerms ct)
                                  (ct_allTerms ct)) cts))
                 [0..<length cts]
       \<and> map fst (responseSummaries js cts) = map ct_clusterId cts"
proof -
  let ?xs = "map (summarize js) cts"
  let ?bases = "map (\<lambda>ct. generateClusterLabel js (ct_clusterTexts ct) (ct_topTerms ct)
                                  (ct_allTerms ct)) cts"
  have keys: "map fst ?xs = map ct_clusterId cts" by (simp add: summarize_fst comp_def)
  have d: "distinct (map fst ?xs)" unfolding keys by (rule assms)
  have r: "responseSummaries js cts = relabel [] ?xs"
    unfolding responseSummaries_def by (rule uniqueLabels_relabel[OF d])
  have bases: "map (baseLabel \<circ> snd) ?xs = ?bases" by (simp add: summarize_base comp_def)
  have lab: "\<forall>(k, s)\<in>set ?xs. sm_label s = baseLabel s"
    using summarize_base(2) by (auto simp: image_iff) (metis snd_conv)
  have sl: "spec_label bs = (\<lambda>i. counted (bs ! i) (count_list (take i bs) (bs ! i)))" for bs
    by (rule ext) (rule spec_label_counted)
  have "map (sm_label \<circ> snd) (relabel [] ?xs)
          = map (\<lambda>i. counted (map (baseLabel \<circ> snd) ?xs ! i)
                          (count_list ([] @ take i (map (baseLabel \<circ> snd) ?xs))
                                      (map (baseLabel \<circ> snd) ?xs ! i)))
                 [0..<length ?xs]"
    by (rule relabel_labels[OF lab])
  then have labels: "map (sm_label \<circ> snd) (responseSummaries js cts)
                  = map (spec_label ?bases) [0..<length cts]"
    unfolding r bases sl by (simp only: append_Nil length_map)
  have "\<forall>b\<in>set ?bases. \<not> endsWithParen b" by (auto simp: generateClusterLabel_no_paren)
  then have "distinct (map (spec_label ?bases) [0..<length ?bases])"
    unfolding sl by (rule distinct_counted)
  then have dist: "distinct (map (sm_label \<circ> snd) (responseSummaries js cts))"
    using labels by simp
  show ?thesis using dist labels keys by (simp add: r relabel_keys)
qed

lemma str_includes_Nil: "t \<noteq> [] \<Longrightarrow> \<not> str_includes [] t"
  by simp

lemma bare_label:
  "generateClusterLabel plain_api [] [] Map.empty = ''Documents''"
proof -
  have score: "categoryScore plain_api [] [] Map.empty kws = 0" if "[] \<notin> set kws" for kws
  proof -
    have "fold (\<lambda>keyword score.
                  if str_includes [] keyword
                  then (let frequency = (case Map.empty keyword of Some n \<Rightarrow> n | None \<Rightarrow> 0)
                        in score + (if frequency > 0 then frequency * 3 else 2))
                  else score) kws a = a" for a :: nat
      using that by (induction kws arbitrary: a) auto
    then show ?thesis by (simp add: categoryScore_def plain_api_def Let_def)
  qed
  have all: "\<forall>(category, kws, label)\<in>set categories. [] \<notin> set kws"
    by (simp add: categories_def)
  have "fold (\<lambda>(category, kws, label) scores.
                (let score = categoryScore plain_api [] [] Map.empty kws
                 in if score > 0 then scores @ [(category, score)] else scores))
             cats acc = acc"
    if "\<forall>(category, kws, label)\<in>set cats. [] \<notin> set kws" for cats and acc :: "(string \<times> nat) list"
    using that by (induction cats arbitrary: acc) (auto simp: score)
  from this[OF all, of "[]"] show ?thesis
    by (simp add: generateClusterLabel_def Let_def plain_api_def)
qed

text \<open>Two clusters without texts and terms are both labelled \<open>Documents\<close> by the labeler.\<close>

theorem labels_are_unique_witness:
  "map (sm_label \<circ> snd) (responseSummaries plain_api [bare_cluster 0, bare_cluster 1])
     = [''Documents'', ''Documents (2)'']"
proof -
  have d: "distinct (map ct_clusterId [bare_cluster 0, bare_cluster 1])"
    by (simp add: bare_cluster_def)
  have two: "showNat (Suc (Suc 0)) = ''2''" by (subst showNat.simps) (simp add: eval_nat_numeral)
  have l: "generateClusterLabel plain_api (ct_clusterTexts (bare_cluster k)) (ct_topTerms (bare_cluster k))
             (ct_allTerms (bare_cluster k)) = ''Documents''" for k
    using bare_label by (simp add: bare_cluster_def)
  have u: "[0..<2] = [0, Suc 0]" by (simp add: upt_rec)
  show ?thesis
    using labels_are_unique[OF d, of plain_api]
    by (simp add: l spec_label_def two u)
qed

section \<open>Proofs: the vectorizer\<close>

lemma put_length: "length (fst (put x s)) = length (fst s)"
  by (cases s) (simp add: put_def)

lemma fold_put_length: "length (fst (fold put xs s)) = length (fst s)"
  by (induction xs arbitrary: s) (simp_all add: put_length)

lemma fold_guarded_put_length:
  "length (fst (fold (\<lambda>(a, b) (vector, vectorIndex).
                        if vectorIndex \<ge> n then (vector, vectorIndex)
                        else put (g a b) (vector, vectorIndex)) xs s)) = length (fst s)"
proof (induction xs arbitrary: s)
  case Nil
  show ?case by simp
next
  case (Cons x xs)
  obtain a b where x: "x = (a, b)" by (cases x)
  obtain vector vectorIndex where s: "s = (vector, vectorIndex)" by (cases s)
  show ?case using Cons[of "put (g a b) (vector, vectorIndex)"] Cons[of "(vector, vectorIndex)"]
    by (simp add: x s put_length)
qed

lemma fillVector_length: "length (fillVector js doc) = 50"
  unfolding fillVector_def Let_def
  by (simp only: fold_guarded_put_length fold_put_length fst_conv length_replicate)

lemma fold_sumsq:
  fixes v :: "real list"
  shows "fold (\<lambda>val sum. sum + val * val) v a = a + (\<Sum>x\<leftarrow>v. x\<^sup>2)"
  by (induction v arbitrary: a) (simp_all add: power2_eq_square)

lemma fold_divide:
  fixes v :: "real list"
  assumes "n \<le> length v"
  shows "fold (\<lambda>i vector. vector[i := vector ! i / m]) [0..<n] v
           = map (\<lambda>x. x / m) (take n v) @ drop n v"
  using assms
proof (induction n)
  case 0
  show ?case by simp
next
  case (Suc n)
  then have n: "n < length v" by simp
  have IH: "fold (\<lambda>i vector. vector[i := vector ! i / m]) [0..<n] v
              = map (\<lambda>x. x / m) (take n v) @ drop n v" using Suc by simp
  have d: "drop n v = v ! n # drop (Suc n) v" using n by (simp add: Cons_nth_drop_Suc)
  have "(map (\<lambda>x. x / m) (take n v) @ drop n v)[n := (map (\<lambda>x. x / m) (take n v) @ drop n v) ! n / m]
          = map (\<lambda>x. x / m) (take (Suc n) v) @ drop (Suc n) v"
    using n by (simp add: d take_Suc_conv_app_nth list_update_append nth_append)
  then show ?case by (simp add: IH)
qed

lemma sum_list_sq_divide:
  fixes v :: "real list"
  shows "(\<Sum>x\<leftarrow>map (\<lambda>x. x / m) v. x\<^sup>2) = (\<Sum>x\<leftarrow>v. x\<^sup>2) / m\<^sup>2"
  by (induction v) (simp_all add: power_divide add_divide_distrib)

lemma sum_list_sq_nonneg: "0 \<le> (\<Sum>x\<leftarrow>v. x\<^sup>2)" for v :: "real list"
  by (induction v) simp_all

lemma sum_list_sq_zero: "(\<Sum>x\<leftarrow>v. x\<^sup>2) = 0 \<Longrightarrow> x \<in> set v \<Longrightarrow> x = 0" for v :: "real list"
proof (induction v)
  case Nil
  then show ?case by simp
next
  case (Cons y v)
  have a: "0 \<le> y\<^sup>2" by simp
  have b: "0 \<le> (\<Sum>x\<leftarrow>v. x\<^sup>2)" by (rule sum_list_sq_nonneg)
  have c: "y\<^sup>2 + (\<Sum>x\<leftarrow>v. x\<^sup>2) = 0" using Cons.prems(1) by simp
  have "y\<^sup>2 = 0" using a b c by linarith
  moreover have "(\<Sum>x\<leftarrow>v. x\<^sup>2) = 0" using a b c by linarith
  ultimately show ?case using Cons by auto
qed

lemma normalizeVector_length: "length (normalizeVector v) = length v"
  by (simp add: normalizeVector_def Let_def fold_divide)

lemma normalizeVector_norm:
  "l2norm (normalizeVector v) = 1 \<or> ((\<forall>x\<in>set v. x = 0) \<and> normalizeVector v = v)"
proof (cases "sqrt (\<Sum>x\<leftarrow>v. x\<^sup>2) > 0")
  case True
  let ?S = "\<Sum>x\<leftarrow>v. x\<^sup>2"
  have S: "0 < ?S" using True by simp
  have n: "normalizeVector v = map (\<lambda>x. x / sqrt ?S) v"
    using True by (simp add: normalizeVector_def fold_sumsq fold_divide)
  have "(\<Sum>x\<leftarrow>normalizeVector v. x\<^sup>2) = ?S / (sqrt ?S)\<^sup>2"
    unfolding n by (rule sum_list_sq_divide)
  also have "\<dots> = 1" using S by simp
  finally show ?thesis by (simp add: l2norm_def)
next
  case False
  then have "(\<Sum>x\<leftarrow>v. x\<^sup>2) \<le> 0" by (simp add: not_less)
  then have z: "(\<Sum>x\<leftarrow>v. x\<^sup>2) = 0" using sum_list_sq_nonneg[of v] by simp
  then have "\<forall>x\<in>set v. x = 0" using sum_list_sq_zero by blast
  moreover have "normalizeVector v = v" using z by (simp add: normalizeVector_def fold_sumsq)
  ultimately show ?thesis by simp
qed

lemma generateSemanticEmbeddings_map:
  "generateSemanticEmbeddings js documents = map (\<lambda>doc. normalizeVector (fillVector js doc)) documents"
proof -
  have "fold (\<lambda>doc embeddings. embeddings @ [normalizeVector (fillVector js doc)]) documents acc
          = acc @ map (\<lambda>doc. normalizeVector (fillVector js doc)) documents" for acc
    by (induction documents arbitrary: acc) simp_all
  then show ?thesis by (simp add: generateSemanticEmbeddings_def)
qed

text \<open>
  C3. For every list of documents the vectorizer returns one vector per document; every vector
  has the dimension \<open>50\<close>, and it has the Euclidean norm \<open>1\<close> or it is the zero vector, which
  it is only when all features of the document are \<open>0\<close>.
\<close>

theorem vectorizer_contract:
  "length (generateSemanticEmbeddings js documents) = length documents
   \<and> (\<forall>i<length documents.
         length (generateSemanticEmbeddings js documents ! i) = 50
       \<and> (l2norm (generateSemanticEmbeddings js documents ! i) = 1
          \<or> ((\<forall>x\<in>set (fillVector js (documents ! i)). x = 0)
             \<and> (\<forall>x\<in>set (generateSemanticEmbeddings js documents ! i). x = 0))))"
proof -
  have "l2norm (normalizeVector (fillVector js d)) = 1
        \<or> ((\<forall>x\<in>set (fillVector js d). x = 0) \<and> (\<forall>x\<in>set (normalizeVector (fillVector js d)). x = 0))"
    for d
    using normalizeVector_norm[of "fillVector js d"] by auto
  then show ?thesis
    by (simp add: generateSemanticEmbeddings_map normalizeVector_length fillVector_length)
qed


lemma plain_topics:
  "fold (\<lambda>(topic, patterns) (vector, vectorIndex).
            if vectorIndex \<ge> 30 then (vector, vectorIndex)
            else put (topicFeature plain_api doc patterns) (vector, vectorIndex))
        topicPatterns (v, 10)
     = (v[10 := 0, 11 := 0, 12 := 0, 13 := 0, 14 := 0, 15 := 0, 16 := 0, 17 := 0, 18 := 0, 19 := 0], 20)"
  by (simp add: topicPatterns_def topicFeature_def plain_api_def put_def)

lemma plain_semantic:
  assumes "length doc \<le> 1"
  shows "fold (\<lambda>(concept, relatedTerms) (vector, vectorIndex).
            if vectorIndex \<ge> 50 then (vector, vectorIndex)
            else put (semanticFeature doc concept relatedTerms) (vector, vectorIndex))
        semanticRelationships (v, 20)
     = (v[20 := 0, 21 := 0, 22 := 0, 23 := 0, 24 := 0, 25 := 0, 26 := 0, 27 := 0, 28 := 0, 29 := 0], 30)"
proof -
  have no: "\<not> str_includes doc t" if "2 \<le> length t" for t
  proof (cases doc)
    case Nil
    then show ?thesis using that by auto
  next
    case (Cons c cs)
    then have "cs = []" using assms by simp
    then show ?thesis using that Cons by auto
  qed
  have f: "semanticFeature doc concept relatedTerms = 0"
    if "2 \<le> length concept" "\<forall>t\<in>set relatedTerms. 2 \<le> length t" for concept relatedTerms
  proof -
    have "fold (\<lambda>term score. if str_includes doc term then score + 1 else score) ts a = a"
      if "\<forall>t\<in>set ts. 2 \<le> length t" for ts and a :: nat
      using that by (induction ts arbitrary: a) (simp_all add: no)
    then show ?thesis using that by (simp add: semanticFeature_def no)
  qed
  show ?thesis
    by (simp add: semanticRelationships_def f put_def)
qed

lemma plain_basic:
  "basicFeatures plain_api doc = [ln (real (length doc + 1)) / 10, 0, 0, 0, 0, 0, 0, 0, 0, 0]"
  by (simp add: basicFeatures_def plain_api_def)

lemma plain_fill:
  assumes "length doc \<le> 1"
  shows "fillVector plain_api doc = (replicate 50 0)[0 := ln (real (length doc + 1)) / 10]"
proof -
  have low: "js_toLowerCase plain_api doc = doc" by (simp add: plain_api_def)
  have r: "replicate 50 (0::real) = replicate 30 0 @ replicate 20 0" by (simp add: replicate_add[symmetric])
  have 30: "replicate 30 (0::real) = [0,0,0,0,0,0,0,0,0,0, 0,0,0,0,0,0,0,0,0,0, 0,0,0,0,0,0,0,0,0,0]"
    by (simp add: eval_nat_numeral)
  have basic: "fold put (basicFeatures plain_api doc) (replicate 50 0, 0)
                 = ((replicate 50 0)[0 := ln (real (length doc + 1)) / 10], 10)"
    by (simp add: plain_basic put_def r 30)
  show ?thesis
    unfolding fillVector_def Let_def basic plain_topics low plain_semantic[OF assms]
    by (simp add: r 30)
qed

text \<open>
  The empty document has the zero vector, the document \<open>a\<close> a vector of norm \<open>1\<close> (its first
  feature is \<open>ln 2 / 10\<close>).
\<close>

theorem vectorizer_contract_witness:
  "length (generateSemanticEmbeddings plain_api [[], ''a'']) = 2
   \<and> length (generateSemanticEmbeddings plain_api [[], ''a''] ! 1) = 50
   \<and> l2norm (generateSemanticEmbeddings plain_api [[], ''a''] ! 1) = 1
   \<and> generateSemanticEmbeddings plain_api [[], ''a''] ! 0 = replicate 50 0"
proof -
  have z: "fillVector plain_api [] = replicate 50 0"
    using plain_fill[of "[]"] by (simp add: list_update_same_conv)
  have nz: "ln 2 / 10 \<in> set (fillVector plain_api ''a'')"
    using plain_fill[of "''a''"] by (simp add: set_update_memI)
  have "ln (2::real) / 10 \<noteq> 0" by simp
  then have a: "\<not> (\<forall>x\<in>set (fillVector plain_api ''a''). x = 0)" using nz by blast
  have "(\<Sum>x\<leftarrow>replicate 50 (0::real). x\<^sup>2) = 0" by (simp add: sum_list_replicate)
  then have n0: "normalizeVector (replicate 50 0) = replicate 50 0"
    by (simp only: normalizeVector_def fold_sumsq Let_def) simp
  show ?thesis
    using vectorizer_contract[of plain_api "[[], ''a'']"] a
    by (auto simp: generateSemanticEmbeddings_map z n0 less_Suc_eq)
qed

section \<open>Proofs: binary64 arithmetic\<close>

lemma roundTiesToEven_near:
  assumes "\<bar>r - of_int m\<bar> < 1 / 2"
  shows "roundTiesToEven r = m"
proof (cases "of_int m \<le> r")
  case True
  then have "\<lfloor>r\<rfloor> = m" using assms by (simp add: floor_eq_iff abs_less_iff)
  then show ?thesis using assms True by (simp add: roundTiesToEven_def abs_less_iff)
next
  case False
  then have f: "\<lfloor>r\<rfloor> = m - 1" using assms by (simp add: floor_eq_iff abs_less_iff)
  have "1 / 2 < r - of_int (m - 1)" using assms False by (simp add: abs_less_iff)
  then show ?thesis using f by (simp add: roundTiesToEven_def)
qed

lemma quantum_binade:
  assumes "2 powi k \<le> \<bar>x\<bar>" "\<bar>x\<bar> < 2 powi (k + 1)" "- 1022 \<le> k"
  shows "quantum x = k - 52"
proof -
  have pos: "0 < \<bar>x\<bar>" using assms(1) by (smt (verit) zero_less_power_int)
  have p1: "2 powr real_of_int k = (2 :: real) powi k" by (simp add: powr_real_of_int')
  have p2: "2 powr real_of_int (k + 1) = (2 :: real) powi (k + 1)"
    by (rule powr_real_of_int') simp_all
  have "(2 :: real) powr real_of_int k \<le> \<bar>x\<bar> \<and> \<bar>x\<bar> < 2 powr real_of_int (k + 1)"
    unfolding p1 p2 using assms(1,2) by simp
  then have "\<lfloor>log 2 \<bar>x\<bar>\<rfloor> = k"
    using floor_log_eq_powr_iff[of "\<bar>x\<bar>" 2 k] pos by simp
  then show ?thesis using assms(3) by (simp add: quantum_def)
qed

text \<open>
  The rounding of a value \<open>x\<close> of the binade \<open>k\<close>: the multiple \<open>m * 2^(k-52)\<close> that is nearer
  to \<open>x\<close> than half a unit.
\<close>

lemma binary64_round:
  assumes "2 powi k \<le> \<bar>x\<bar>" "\<bar>x\<bar> < 2 powi (k + 1)" "- 1022 \<le> k"
      and "\<bar>x / 2 powi (k - 52) - of_int m\<bar> < 1 / 2"
      and "\<bar>of_int m * 2 powi (k - 52)\<bar> < (2 :: real) ^ 1024"
  shows "binary64 x = Num (of_int m * 2 powi (k - 52))"
proof -
  have q: "quantum x = k - 52" using assms(1-3) by (rule quantum_binade)
  have r: "roundTiesToEven (x / 2 powi (k - 52)) = m" using assms(4) by (rule roundTiesToEven_near)
  have qpos: "(0 :: real) < 2 powi (k - 52)" by simp
  have "2 powi k / 2 powi (k - 52) \<le> \<bar>x\<bar> / 2 powi (k - 52)"
    using assms(1) qpos by (simp add: divide_right_mono)
  moreover have "(2 :: real) powi k / 2 powi (k - 52) = 2 powi 52"
    by (simp add: power_int_diff)
  ultimately have big: "2 ^ 52 \<le> \<bar>x / 2 powi (k - 52)\<bar>" by (simp add: abs_divide)
  have "m \<noteq> 0"
  proof
    assume "m = 0"
    then have "\<bar>x / 2 powi (k - 52)\<bar> < 1 / 2" using assms(4) by simp
    with big have "(2 :: real) ^ 52 < 1 / 2" by (rule le_less_trans)
    then show False by simp
  qed
  then have nz: "of_int m * 2 powi (k - 52) \<noteq> (0 :: real)" by simp
  show ?thesis using q r nz assms(5) by (simp add: binary64_def Let_def)
qed

lemma binary64_1: "binary64 1 = Num 1"
  using binary64_round[of 0 1 "2 ^ 52"] by (simp add: power_int_minus)

lemma binary64_25: "binary64 25 = Num 25"
  using binary64_round[of 4 25 "25 * 2 ^ 48"] by (simp add: power_int_minus)

lemma binary64_26: "binary64 26 = Num 26"
  using binary64_round[of 4 26 "26 * 2 ^ 48"] by (simp add: power_int_minus)

text \<open>\<open>Math.sqrt(26)\<close> is \<open>5.0990195135927845\<close>, below the square root.\<close>

lemma binary64_sqrt_26: "binary64 (sqrt 26) = Num (5740985595342838 / 2 ^ 50)"
proof -
  have lo: "(5740985595342838 - 1 / 2) / 2 ^ 50 < sqrt 26"
    by (rule real_less_rsqrt) (simp add: power2_eq_square)
  have hi: "sqrt 26 < (5740985595342838 + 1 / 2) / 2 ^ 50"
    by (rule real_less_lsqrt) (simp_all add: power2_eq_square)
  have a: "2 powi 2 \<le> \<bar>sqrt 26\<bar>" using lo by simp
  have b: "\<bar>sqrt 26\<bar> < 2 powi (2 + 1)" using hi by simp
  define t where "t = sqrt 26 * 2 ^ 50"
  have e: "sqrt 26 / 2 powi (2 - 52) = t" by (simp add: t_def power_int_minus)
  have lo': "5740985595342838 - 1 / 2 < t" using lo by (simp add: t_def field_simps)
  have hi': "t < 5740985595342838 + 1 / 2" using hi by (simp add: t_def field_simps)
  have "\<bar>t - 5740985595342838\<bar> < 1 / 2" using lo' hi' by linarith
  then have c: "\<bar>sqrt 26 / 2 powi (2 - 52) - of_int 5740985595342838\<bar> < 1 / 2"
    unfolding e by simp
  show ?thesis using binary64_round[OF a b _ c] by (simp add: power_int_minus)
qed

text \<open>The product of the two roots is \<open>25.999999999999996\<close>.\<close>

lemma binary64_roots_product:
  "binary64 (5740985595342838 / 2 ^ 50 * (5740985595342838 / 2 ^ 50))
     = Num (7318349394477055 / 2 ^ 48)"
  using binary64_round[of 4 "5740985595342838 / 2 ^ 50 * (5740985595342838 / 2 ^ 50)"
                          7318349394477055]
  by (simp add: power_int_minus)

text \<open>The quotient is \<open>1.0000000000000002\<close>.\<close>

lemma binary64_quotient:
  "binary64 (26 / (7318349394477055 / 2 ^ 48)) = Num (1 + 1 / 2 ^ 52)"
  using binary64_round[of 0 "26 / (7318349394477055 / 2 ^ 48)" 4503599627370497]
  by (simp add: power_int_minus)

lemma binary64_distance: "binary64 (- (1 / 2 ^ 52)) = Num (- (1 / 2 ^ 52))"
  using binary64_round[of "- 52" "- (1 / 2 ^ 52)" "- (2 ^ 52)"]
  by (simp add: power_int_minus)

text \<open>The square of \<open>2^600\<close> is above every finite number.\<close>

lemma binary64_overflow: "binary64 (2 ^ 1200) = Infinity"
proof -
  define x :: real where "x = 2 ^ 1200"
  have q: "quantum x = 1200 - 52"
    by (rule quantum_binade) (simp_all add: x_def)
  have e: "x / 2 powi (1200 - 52) = of_int (2 ^ 52)" by (simp add: x_def)
  have r: "roundTiesToEven (x / 2 powi (1200 - 52)) = 2 ^ 52"
    unfolding e by (rule roundTiesToEven_near) simp
  have "binary64 x =
     (if 2 ^ 1024 \<le> \<bar>of_int (2 ^ 52) * 2 powi (1200 - 52) :: real\<bar>
      then (if 0 < x then Infinity else NegInfinity)
      else if of_int (2 ^ 52) * 2 powi (1200 - 52) = (0 :: real)
           then (if x < 0 then NegZero else Num 0)
           else Num (of_int (2 ^ 52) * 2 powi (1200 - 52)))"
    by (simp only: binary64_def Let_def q r)
  also have "\<dots> = Infinity" by (simp add: x_def)
  finally show ?thesis by (simp only: x_def)
qed

lemma cos_sums_15:
  "cos_sums_b64 2 [Num 1, Num 5] [Num 1, Num 5] = (Num 26, Num 26, Num 26)"
  by (simp add: cos_sums_b64_def upt_2 nth_js_def js_add_def js_mul_def
        binary64_1 binary64_25 binary64_26)

lemma roots_26:
  "js_sqrt (Num 26) = Num (5740985595342838 / 2 ^ 50)"
  "js_mul (Num (5740985595342838 / 2 ^ 50)) (Num (5740985595342838 / 2 ^ 50))
     = Num (7318349394477055 / 2 ^ 48)"
  "js_div (Num 26) (Num (7318349394477055 / 2 ^ 48)) = Num (1 + 1 / 2 ^ 52)"
  "\<not> strictEquals (Num (5740985595342838 / 2 ^ 50)) (Num 0)"
  "\<not> strictEquals (Num 26) (Num 0)"
proof -
  show "js_sqrt (Num 26) = Num (5740985595342838 / 2 ^ 50)"
    by (simp only: js_sqrt.simps binary64_sqrt_26) simp
  show "js_mul (Num (5740985595342838 / 2 ^ 50)) (Num (5740985595342838 / 2 ^ 50))
     = Num (7318349394477055 / 2 ^ 48)"
    using binary64_roots_product by (simp add: js_mul_def)
  show "js_div (Num 26) (Num (7318349394477055 / 2 ^ 48)) = Num (1 + 1 / 2 ^ 52)"
    using binary64_quotient by (simp add: js_div_def)
  show "\<not> strictEquals (Num (5740985595342838 / 2 ^ 50)) (Num 0)"
    by (simp add: strictEquals_def)
  show "\<not> strictEquals (Num 26) (Num 0)"
    by (simp add: strictEquals_def)
qed

lemma length_15: "min (length [Num 1, Num 5]) (length [Num 1, Num 5]) = 2"
  "length [Num 1, Num 5] = 2"
  by simp_all

lemma cosineSimilarity_b64_15:
  "cosineSimilarity_b64 [Num 1, Num 5] [Num 1, Num 5] = Num (1 + 1 / 2 ^ 52)"
  unfolding cosineSimilarity_b64_def
  by (simp only: length_15 min.idem cos_sums_15 prod.case Let_def roots_26 if_False simp_thms)

lemma cosineSimilarity_ta_b64_15:
  "cosineSimilarity_ta_b64 [Num 1, Num 5] [Num 1, Num 5] = Num (1 + 1 / 2 ^ 52)"
  unfolding cosineSimilarity_ta_b64_def
  by (simp only: length_15 min.idem cos_sums_15 prod.case Let_def roots_26 if_False simp_thms)

lemma cos_sums_overflow:
  "cos_sums_b64 2 [Num (2 ^ 600), Num 0] [Num (2 ^ 600), Num 0] = (Infinity, Infinity, Infinity)"
proof -
  have m: "js_mul (Num (2 ^ 600)) (Num (2 ^ 600)) = Infinity"
    using binary64_overflow by (simp add: js_mul_def)
  have z: "js_mul (Num 0) (Num 0) = Num 0"
    by (simp add: js_mul_def signedZero_def)
  have a: "js_add (Num 0) Infinity = Infinity" "js_add Infinity (Num 0) = Infinity"
    by (simp_all add: js_add_def)
  have n: "nth_js [Num (2 ^ 600), Num 0] 0 = Num (2 ^ 600)"
          "nth_js [Num (2 ^ 600), Num 0] (Suc 0) = Num 0"
    by (simp_all add: nth_js_def)
  show ?thesis
    unfolding cos_sums_b64_def upt_2
    by (simp only: fold_simps prod.case n m z a)
qed

lemma length_overflow:
  "min (length [Num (2 ^ 600), Num 0]) (length [Num (2 ^ 600), Num 0]) = 2"
  "length [Num (2 ^ 600), Num 0] = 2"
  by simp_all

lemma infinity_quotient:
  "js_sqrt Infinity = Infinity"
  "js_mul Infinity Infinity = Infinity"
  "js_div Infinity Infinity = NaN"
  "\<not> strictEquals Infinity (Num 0)"
  by (simp_all add: js_mul_def js_div_def strictEquals_def signedInfinity_def)

lemma cosineSimilarity_b64_overflow:
  "cosineSimilarity_b64 [Num (2 ^ 600), Num 0] [Num (2 ^ 600), Num 0] = NaN"
  unfolding cosineSimilarity_b64_def
  by (simp only: length_overflow min.idem cos_sums_overflow prod.case Let_def infinity_quotient if_False simp_thms)

lemma cosineSimilarity_ta_b64_overflow:
  "cosineSimilarity_ta_b64 [Num (2 ^ 600), Num 0] [Num (2 ^ 600), Num 0] = NaN"
  unfolding cosineSimilarity_ta_b64_def
  by (simp only: length_overflow min.idem cos_sums_overflow prod.case Let_def infinity_quotient if_False simp_thms)

text \<open>
  The scorer on two singleton clusters whose two points are at a distance below \<open>0\<close>: \<open>a\<close> is
  \<open>0\<close>, \<open>b\<close> is the distance, and \<open>b / a - 1\<close> is \<open>-Infinity\<close>.
\<close>

lemma scorer_negative_distance:
  assumes d: "dfun v v = Num (- (1 / 2 ^ 52))"
  shows "silhouetteScoreWith_b64 dfun [v, v] [(0, [0]), (1, [1])] = NegInfinity"
proof -
  define D where "D = Num (- (1 / 2 ^ 52))"
  have dD: "dfun v v = D" using d by (simp add: D_def)
  have add0: "js_add (Num 0) D = D"
    using binary64_distance by (simp add: D_def js_add_def)
  have div1: "js_div D (Num 1) = D"
    using binary64_distance by (simp add: D_def js_div_def)
  have min: "js_min Infinity D = D"
    by (simp add: D_def js_min_def js_less_def)
  have sil: "silhouette_b64 (Num 0) D = NegInfinity"
    by (simp add: D_def silhouette_b64_def strictEquals_def js_less_def js_div_def js_sub_def
          js_add_def signedInfinity_def)
  have tot: "js_add (Num 0) NegInfinity = NegInfinity"
            "js_add NegInfinity NegInfinity = NegInfinity"
            "js_div NegInfinity (Num 2) = NegInfinity"
    by (simp_all add: js_add_def js_div_def signedInfinity_def)
  have p0: "pointSilhouette_b64 dfun [v, v] [(0, [0]), (1, [1])] 0 [0] 0 = NegInfinity"
    by (simp add: pointSilhouette_b64_def minInterClusterDist_b64_def avgDist_b64_def
          interClusterDist_b64_def intraClusterDist_b64_def dD add0 div1 min sil)
  have p1: "pointSilhouette_b64 dfun [v, v] [(0, [0]), (1, [1])] 1 [1] 1 = NegInfinity"
    by (simp add: pointSilhouette_b64_def minInterClusterDist_b64_def avgDist_b64_def
          interClusterDist_b64_def intraClusterDist_b64_def dD add0 div1 min sil)
  have "silhouetteTotals_b64 dfun [v, v] [(0, [0]), (1, [1])] = (NegInfinity, 2)"
    using p0 p1 by (simp add: silhouetteTotals_b64_def tot)
  then show ?thesis by (simp add: silhouetteScoreWith_b64_def tot)
qed

lemma distance_15:
  "cosineSimilarityDistance_b64 [Num 1, Num 5] [Num 1, Num 5] = Num (- (1 / 2 ^ 52))"
  "distance_ca_b64 Cosine [Num 1, Num 5] [Num 1, Num 5] = Num (- (1 / 2 ^ 52))"
proof -
  have "js_sub (Num 1) (Num (1 + 1 / 2 ^ 52)) = Num (- (1 / 2 ^ 52))"
    using binary64_distance by (simp add: js_sub_def js_add_def)
  then show "cosineSimilarityDistance_b64 [Num 1, Num 5] [Num 1, Num 5] = Num (- (1 / 2 ^ 52))"
    "distance_ca_b64 Cosine [Num 1, Num 5] [Num 1, Num 5] = Num (- (1 / 2 ^ 52))"
    by (simp_all only: cosineSimilarityDistance_b64_def distance_ca_b64.simps
          cosineSimilarity_b64_15 cosineSimilarity_ta_b64_15)
qed

text \<open>
  C2 fails on both scorers: for the two vectors \<open>[1, 5]\<close>, \<open>[1, 5]\<close> and the cluster map
  \<open>{0: [0], 1: [1]}\<close>, which \<open>dbscanClustering\<close> builds from these vectors with its default
  parameters, the score is \<open>-Infinity\<close>, outside \<open>[-1, 1]\<close>: the cosine distance of the two
  vectors is \<open>-2^-52\<close>.
\<close>

theorem silhouette_score_negative_infinity:
  "calculateSilhouetteScore_b64 [[Num 1, Num 5], [Num 1, Num 5]] [(0, [0]), (1, [1])]
     = NegInfinity
   \<and> calculateSilhouetteScore_ca_b64 [[Num 1, Num 5], [Num 1, Num 5]] [(0, [0]), (1, [1])] Cosine
     = NegInfinity"
  unfolding calculateSilhouetteScore_b64_def calculateSilhouetteScore_ca_b64_def
  using scorer_negative_distance[of cosineSimilarityDistance_b64 "[Num 1, Num 5]"]
        scorer_negative_distance[of "distance_ca_b64 Cosine" "[Num 1, Num 5]"]
        distance_15
  by simp

text \<open>
  C4 fails on \<open>cosineSimilarity\<close> of \<open>route.ts\<close> and of \<open>text-analysis.ts\<close>: for the
  vector \<open>[1, 5]\<close> and itself both return \<open>1 + 2^-52\<close>, which is \<open>1.0000000000000002\<close> and
  lies outside \<open>[-1, 1]\<close>; for the vector \<open>[2^600, 0]\<close> and itself both return \<open>NaN\<close>.
\<close>

theorem cosineSimilarity_leaves_unit_interval:
  "cosineSimilarity_b64 [Num 1, Num 5] [Num 1, Num 5] = Num (1 + 1 / 2 ^ 52)
   \<and> cosineSimilarity_ta_b64 [Num 1, Num 5] [Num 1, Num 5] = Num (1 + 1 / 2 ^ 52)
   \<and> cosineSimilarity_b64 [Num (2 ^ 600), Num 0] [Num (2 ^ 600), Num 0] = NaN
   \<and> cosineSimilarity_ta_b64 [Num (2 ^ 600), Num 0] [Num (2 ^ 600), Num 0] = NaN"
  by (simp only: cosineSimilarity_b64_15 cosineSimilarity_ta_b64_15
        cosineSimilarity_b64_overflow cosineSimilarity_ta_b64_overflow simp_thms)

end
